theory Spec2Isabelle
  imports Complex_Main
begin

section \<open>Data model of the billing integration\<close>

text \<open>
  The abstract class \<open>BillingIntegration\<close> (src/unnamed/part_000) orchestrates a billing
  provider and a document store.  Its own logic is embedded here function by function.
  Everything it reaches through an abstract method or through another module
  (the provider, the storage classes, the notification handler, \<open>Utils\<close>, the clock)
  is a parameter of the model: a field of the records \<open>Utils\<close> and \<open>Env\<close> below.

  JavaScript values that may be \<open>null\<close> or \<open>undefined\<close> are options, a \<open>throw\<close>
  is the left injection of a sum.
\<close>

text \<open>
  What a \<open>throw\<close> or a rejected promise carries.  The first four are error objects, which
  have a \<open>stack\<close>.  A promise can also be rejected with \<open>null\<close> or \<open>undefined\<close>: that is
  \<open>NullishRejection\<close>, and reading \<open>error.stack\<close> of it throws a \<open>TypeError\<close>.
\<close>

datatype error =
    BackendError string
  | TypeError string
  | PlainError string
  | ExternalError string
  | NullishRejection

text \<open>
  A property that holds a string may be \<open>undefined\<close>, \<open>null\<close> or the string; the strict
  comparison \<open>!==\<close> tells the three apart.
\<close>

datatype 'a nullable = Undefined | Null | Defined 'a

datatype BillingInvoiceStatus = DRAFT | OPEN | PAID | OtherInvoiceStatus string

datatype BillingStatus = UNBILLED | BILLED | PENDING | FAILED

datatype TenantComponents = ORGANIZATION | BILLING | OtherComponent string

text \<open>
  A \<open>Date\<close> of a transaction is its number of milliseconds since the epoch.  The values
  built with \<open>moment()\<close> are only used through their local calendar fields
  (\<open>date(n)\<close>, \<open>startOf('day')\<close>, \<open>endOf('day')\<close>, \<open>isSame(_, 'day')\<close>), so a moment is
  the record of these fields; months count from 1.
\<close>

type_synonym Date = int

record Moment =
  year :: int
  month :: nat
  day :: nat
  hour :: nat
  minute :: nat
  second :: nat
  millisecond :: nat

record BillingUserData =
  customerID :: "string nullable"

record User =
  userId :: string
  email :: string
  userLocale :: string
  freeAccess :: bool
  userBillingData :: "BillingUserData option"

record BillingUser =
  billingUserID :: string
  billingData :: "BillingUserData option"

record TransactionStop =
  stopTimestamp :: Date
  totalConsumptionWh :: int

record LastConsumption =
  lastTimestamp :: Date

record BillingDataTransactionStop =
  billingStatus :: "BillingStatus option"
  invoiceID :: "string option"
  invoiceNumber :: "string option"
  invoiceStatus :: "BillingInvoiceStatus option"

record BillingData =
  withBillingActive :: bool
  lastUpdate :: Date
  billingStop :: "BillingDataTransactionStop option"

record Transaction =
  transactionId :: nat
  userID :: "string nullable"
  user :: "User option"
  timestamp :: Date
  stop :: "TransactionStop option"
  lastConsumption :: LastConsumption
  transactionBillingData :: "BillingData option"

record BillingSession =
  transactionID :: nat

record BillingInvoice =
  invoiceId :: string
  invoiceUser :: User
  status :: BillingInvoiceStatus
  liveMode :: bool
  createdOn :: Moment
  sessions :: "BillingSession list option"
  amount :: int
  currency :: string
  number :: string
  payInvoiceUrl :: string

record ChargingStation =
  chargingStationId :: string

record SiteArea =
  accessControl :: bool

record Tenant =
  tenantId :: string
  subdomain :: string

record BillingSetting =
  isTransactionBillingActivated :: bool
  periodicBillingAllowed :: bool

record BillingSettings =
  billing :: "BillingSetting option"

text \<open>The object \<open>this\<close>: the two fields the constructor sets.\<close>

record BillingIntegration =
  tenant :: Tenant
  settings :: BillingSettings

text \<open>
  What the class takes from \<open>Utils\<close>, \<open>Constants\<close> and the JavaScript runtime, none of
  which is part of the sources: the execution environment flag, the tenant component
  test, the batch page size, and the locale aware currency formatter
  (\<open>Intl.NumberFormat\<close>, which throws on a currency code it does not accept).
\<close>

record DbParams =
  dbLimit :: nat
  dbSkip :: int
  dbSort :: "(string \<times> int) list"

record Utils =
  isDevelopmentEnv :: bool
  isTenantComponentActive :: "Tenant \<Rightarrow> TenantComponents \<Rightarrow> bool"
  BATCH_PAGE_SIZE :: nat
  DB_PARAMS_MAX_LIMIT :: DbParams
  convertLocaleForCurrency :: "string \<Rightarrow> string"
  formatCurrency :: "string \<Rightarrow> string \<Rightarrow> rat \<Rightarrow> error + string"
  toUpperCase :: "string \<Rightarrow> string"
  buildEvseBillingInvoicesURL :: "string \<Rightarrow> string"
  buildEvseURL :: "string \<Rightarrow> string"
  buildEvseBillingDownloadInvoicesURL :: "string \<Rightarrow> string \<Rightarrow> string"

text \<open>A string is falsy in JavaScript when it is \<open>undefined\<close>, \<open>null\<close> or empty.\<close>

definition truthy :: "string nullable \<Rightarrow> bool" where
  "truthy s = (case s of Undefined \<Rightarrow> False | Null \<Rightarrow> False | Defined v \<Rightarrow> v \<noteq> [])"

text \<open>\<open>user?.billingData?.customerID\<close>: the chain answers \<open>undefined\<close> where it breaks.\<close>

definition userCustomerID :: "User option \<Rightarrow> string nullable" where
  "userCustomerID u =
     (case u of None \<Rightarrow> Undefined
      | Some v \<Rightarrow> (case userBillingData v of None \<Rightarrow> Undefined | Some d \<Rightarrow> customerID d))"

section \<open>The eligibility guard\<close>

text \<open>
  \<open>checkStartTransaction\<close>, lines 233 to 282.  \<open>this.settings.billing\<close> is read without
  optional chaining here, so a missing billing section is a \<open>TypeError\<close>.
\<close>

definition checkStartTransaction ::
  "BillingIntegration \<Rightarrow> Utils \<Rightarrow> Transaction \<Rightarrow> ChargingStation option \<Rightarrow> SiteArea option
     \<Rightarrow> error + bool" where
  "checkStartTransaction this utils transaction chargingStation siteArea =
     (case billing (settings this) of
        None \<Rightarrow> Inl (TypeError ''Cannot read properties of undefined'')
      | Some b \<Rightarrow>
          if \<not> isTransactionBillingActivated b then Inr False
          else if \<not> truthy (userID transaction) then Inl (BackendError ''User ID is not provided'')
          else (case user transaction of
                  None \<Rightarrow> Inl (BackendError ''User ID is not provided'')
                | Some u \<Rightarrow>
                    if freeAccess u then Inr False
                    else if chargingStation = None
                      then Inl (BackendError ''The Charging Station is mandatory to start a Transaction'')
                    else if isTenantComponentActive utils (tenant this) ORGANIZATION
                            \<and> siteArea = None
                      then Inl (BackendError ''The Site Area is mandatory to start a Transaction'')
                    else if isTenantComponentActive utils (tenant this) ORGANIZATION
                            \<and> (case siteArea of None \<Rightarrow> False | Some a \<Rightarrow> \<not> accessControl a)
                      then Inr False
                    else if \<not> truthy (userCustomerID (Some u))
                      then Inl (BackendError ''User has no Billing data or no Customer ID'')
                    else Inr True))"

section \<open>The periodic query window\<close>

text \<open>
  The calendar operations of \<open>moment\<close> that the class uses.  \<open>date(n)\<close> sets the day of
  the month and, like \<open>Date.setDate\<close>, bubbles into the neighbouring months when \<open>n\<close>
  is out of range: \<open>date(0)\<close> is the last day of the previous month.
\<close>

definition leapYear :: "int \<Rightarrow> bool" where
  "leapYear y = (y mod 4 = 0 \<and> (y mod 100 = 0 \<longrightarrow> y mod 400 = 0))"

definition daysInMonth :: "int \<Rightarrow> nat \<Rightarrow> nat" where
  "daysInMonth y m =
     (if m = 2 then (if leapYear y then 29 else 28)
      else if m = 4 \<or> m = 6 \<or> m = 9 \<or> m = 11 then 30 else 31)"

definition previousMonth :: "int \<times> nat \<Rightarrow> int \<times> nat" where
  "previousMonth ym = (if snd ym \<le> 1 then (fst ym - 1, 12) else (fst ym, snd ym - 1))"

definition nextMonth :: "int \<times> nat \<Rightarrow> int \<times> nat" where
  "nextMonth ym = (if 12 \<le> snd ym then (fst ym + 1, 1) else (fst ym, snd ym + 1))"

function date_set :: "nat \<Rightarrow> Moment \<Rightarrow> Moment" where
  "date_set n t =
     (if n = 0 then
        (let ym = previousMonth (year t, month t)
         in t\<lparr>year := fst ym, month := snd ym, day := daysInMonth (fst ym) (snd ym)\<rparr>)
      else if n \<le> daysInMonth (year t) (month t) then t\<lparr>day := n\<rparr>
      else
        (let ym = nextMonth (year t, month t)
         in date_set (n - daysInMonth (year t) (month t)) (t\<lparr>year := fst ym, month := snd ym\<rparr>)))"
  by pat_completeness auto
termination
  by (relation "measure (\<lambda>(n, t). n)") (auto simp: daysInMonth_def)

definition startOf_day :: "Moment \<Rightarrow> Moment" where
  "startOf_day t = t\<lparr>hour := 0, minute := 0, second := 0, millisecond := 0\<rparr>"

definition endOf_day :: "Moment \<Rightarrow> Moment" where
  "endOf_day t = t\<lparr>hour := 23, minute := 59, second := 59, millisecond := 999\<rparr>"

definition isSame_day :: "Moment \<Rightarrow> Moment \<Rightarrow> bool" where
  "isSame_day a b = (year a = year b \<and> month a = month b \<and> day a = day b)"

text \<open>Chronological order of two moments of the same time zone.\<close>

definition isBefore :: "Moment \<Rightarrow> Moment \<Rightarrow> bool" where
  "isBefore a b =
     (year a < year b \<or> (year a = year b \<and>
     (month a < month b \<or> (month a = month b \<and>
     (day a < day b \<or> (day a = day b \<and>
     (hour a < hour b \<or> (hour a = hour b \<and>
     (minute a < minute b \<or> (minute a = minute b \<and>
     (second a < second b \<or> (second a = second b \<and>
      millisecond a < millisecond b))))))))))))"

definition isSameOrAfter :: "Moment \<Rightarrow> Moment \<Rightarrow> bool" where
  "isSameOrAfter a b = (\<not> isBefore a b)"

text \<open>A moment that a clock can show.\<close>

definition validMoment :: "Moment \<Rightarrow> bool" where
  "validMoment t =
     (1 \<le> month t \<and> month t \<le> 12 \<and> 1 \<le> day t \<and> day t \<le> daysInMonth (year t) (month t)
      \<and> hour t < 24 \<and> minute t < 60 \<and> second t < 60 \<and> millisecond t < 1000)"

text \<open>
  The filter object handed to \<open>BillingStorage.getInvoices\<close>: the periodic run sets the
  window and the statuses, the purge of test data sets \<open>liveMode\<close> only.
\<close>

record InvoiceFilter =
  startDateTime :: "Moment option"
  endDateTime :: "Moment option"
  filterInvoiceStatus :: "BillingInvoiceStatus list option"
  filterLiveMode :: "bool option"

record PeriodicQuery =
  queryFilter :: InvoiceFilter
  queryLimit :: nat
  querySort :: "(string \<times> int) list"

text \<open>
  \<open>preparePeriodicBillingQueryParameters\<close>, lines 543 to 580.  Each \<open>moment()\<close> reads the
  clock; the four reads of one call are taken at the same instant \<open>now\<close>.
\<close>

definition preparePeriodicBillingQueryParameters ::
  "BillingIntegration \<Rightarrow> Utils \<Rightarrow> Moment \<Rightarrow> bool \<Rightarrow> PeriodicQuery" where
  "preparePeriodicBillingQueryParameters this utils now forceOperation =
     (let lim = (if forceOperation then 1 else BATCH_PAGE_SIZE utils);
          startDT = (if forceOperation then startOf_day now
                     else startOf_day (date_set 1 (date_set 0 now)));
          endDT = (if forceOperation then endOf_day now
                   else startOf_day (date_set 1 now));
          invoiceStatuses =
            (case billing (settings this) of
               None \<Rightarrow> [OPEN]
             | Some b \<Rightarrow> if periodicBillingAllowed b then [DRAFT, OPEN] else [OPEN])
      in \<lparr>queryFilter = \<lparr>startDateTime = Some startDT, endDateTime = Some endDT,
                           filterInvoiceStatus = Some invoiceStatuses, filterLiveMode = None\<rparr>,
          queryLimit = lim,
          querySort = [(''createdOn'', 1)]\<rparr>)"

text \<open>\<open>isInvoiceOutOfPeriodicOperationScope\<close>, lines 533 to 541.\<close>

definition isInvoiceOutOfPeriodicOperationScope :: "BillingIntegration \<Rightarrow> BillingInvoice \<Rightarrow> bool" where
  "isInvoiceOutOfPeriodicOperationScope this invoice =
     (if status invoice = DRAFT
          \<and> (case billing (settings this) of None \<Rightarrow> False | Some b \<Rightarrow> periodicBillingAllowed b)
        then False
      else if status invoice = OPEN then False
      else True)"

section \<open>The outside world: provider, store, notifier, logger\<close>

text \<open>
  The provider's abstract methods and the static methods of the storage classes are
  functions on an opaque world \<open>'w\<close>: each takes the world, returns a result or the
  error it throws, and the world after the call.  Nothing is assumed about them.
  \<open>momentNow\<close> and \<open>newDate\<close> read the clock.
\<close>

record NotificationData =
  notifyUser :: User
  evseDashboardInvoiceURL :: string
  evseDashboardURL :: string
  invoiceDownloadUrl :: string
  payInvoiceUrlSent :: string
  invoiceAmount :: string
  invoiceNumberSent :: string
  invoiceStatusSent :: BillingInvoiceStatus

datatype LogLevel = LogInfo | LogWarning | LogError

text \<open>
  Every call that leaves the class is recorded, with its result, in a trace; the log
  entries and the notifications handed to \<open>NotificationHandler\<close> are events of the
  same trace.  The trace is what the theorems below count and inspect.
\<close>

datatype event =
    EvCheckConnection "error + unit"
  | EvIsUserSynchronized User "error + bool"
  | EvGetUser User "error + BillingUser option"
  | EvCreateUser User "error + BillingUser option"
  | EvUpdateUser User "error + BillingUser option"
  | EvRepairUser User "error + BillingUser option"
  | EvChargeInvoice BillingInvoice "error + BillingInvoice"
  | EvGetInvoices InvoiceFilter DbParams "error + BillingInvoice list"
  | EvDeleteInvoice string "error + unit"
  | EvGetTransaction nat "error + Transaction option"
  | EvSaveTransactionBillingData nat BillingData "error + unit"
  | EvGetTenant string "error + Tenant option"
  | EvSendBillingNewInvoiceNotification string NotificationData
  | EvLog LogLevel string string

record 'w Env =
  checkConnection :: "'w \<Rightarrow> (error + unit) \<times> 'w"
  isUserSynchronized :: "User \<Rightarrow> 'w \<Rightarrow> (error + bool) \<times> 'w"
  getUser :: "User \<Rightarrow> 'w \<Rightarrow> (error + BillingUser option) \<times> 'w"
  createUser :: "User \<Rightarrow> 'w \<Rightarrow> (error + BillingUser option) \<times> 'w"
  updateUser :: "User \<Rightarrow> 'w \<Rightarrow> (error + BillingUser option) \<times> 'w"
  repairUser :: "User \<Rightarrow> 'w \<Rightarrow> (error + BillingUser option) \<times> 'w"
  chargeInvoice :: "BillingInvoice \<Rightarrow> 'w \<Rightarrow> (error + BillingInvoice) \<times> 'w"
  getInvoices :: "InvoiceFilter \<Rightarrow> DbParams \<Rightarrow> 'w \<Rightarrow> (error + BillingInvoice list) \<times> 'w"
  deleteInvoice :: "string \<Rightarrow> 'w \<Rightarrow> (error + unit) \<times> 'w"
  getTransaction :: "nat \<Rightarrow> 'w \<Rightarrow> (error + Transaction option) \<times> 'w"
  saveTransactionBillingData :: "nat \<Rightarrow> BillingData \<Rightarrow> 'w \<Rightarrow> (error + unit) \<times> 'w"
  getTenant :: "string \<Rightarrow> 'w \<Rightarrow> (error + Tenant option) \<times> 'w"
  momentNow :: "'w \<Rightarrow> Moment"
  newDate :: "'w \<Rightarrow> Date"

record 'w Sys =
  world :: 'w
  trace :: "event list"

definition emit :: "event \<Rightarrow> 'w Sys \<Rightarrow> 'w Sys" where
  "emit e s = s\<lparr>trace := trace s @ [e]\<rparr>"

text \<open>An awaited call of an outside operation: run it on the world, record it with its result.\<close>

definition perform :: "('w \<Rightarrow> 'r \<times> 'w) \<Rightarrow> ('r \<Rightarrow> event) \<Rightarrow> 'w Sys \<Rightarrow> 'r \<times> 'w Sys" where
  "perform op ev s =
     (let rw = op (world s)
      in (fst rw, \<lparr>world = snd rw, trace = trace s @ [ev (fst rw)]\<rparr>))"

text \<open>
  \<open>Logging.logInfo\<close>, \<open>logWarning\<close>, \<open>logError\<close>: an entry with the method and the message.
  A message is written without the quotation marks that the source puts around an
  identifier, and without the number of the transaction where the source ends with it.
\<close>

definition logInfo :: "string \<Rightarrow> string \<Rightarrow> 'w Sys \<Rightarrow> 'w Sys" where
  "logInfo method message s = emit (EvLog LogInfo method message) s"

definition logWarning :: "string \<Rightarrow> string \<Rightarrow> 'w Sys \<Rightarrow> 'w Sys" where
  "logWarning method message s = emit (EvLog LogWarning method message) s"

definition logError :: "string \<Rightarrow> string \<Rightarrow> 'w Sys \<Rightarrow> 'w Sys" where
  "logError method message s = emit (EvLog LogError method message) s"

text \<open>
  The body of the \<open>catch\<close> handlers of the class: they build the log entry with
  \<open>detailedMessages: { error: error.stack }\<close> and await \<open>Logging.logError\<close>.  Reading the
  \<open>stack\<close> of a rejection with \<open>null\<close> or \<open>undefined\<close> throws before anything is logged, and
  the \<open>TypeError\<close> leaves the handler; the result \<open>Some\<close> is that error.  Writing a log
  entry is taken not to fail, here and in \<open>logInfo\<close> and \<open>logWarning\<close>.
\<close>

definition logErrorWithStack :: "string \<Rightarrow> string \<Rightarrow> error \<Rightarrow> 'w Sys \<Rightarrow> error option \<times> 'w Sys" where
  "logErrorWithStack method message e s =
     (if e = NullishRejection
        then (Some (TypeError ''Cannot read properties of undefined (reading stack)''), s)
      else (None, logError method message s))"

section \<open>The usage threshold\<close>

text \<open>\<open>computeTimeSpentInSeconds\<close>, lines 338 to 346: a difference of milliseconds, in seconds.\<close>

definition computeTimeSpentInSeconds :: "Transaction \<Rightarrow> rat" where
  "computeTimeSpentInSeconds transaction =
     (case stop transaction of
        None \<Rightarrow> of_int (lastTimestamp (lastConsumption transaction) - timestamp transaction) / 1000
      | Some st \<Rightarrow> of_int (stopTimestamp st - timestamp transaction) / 1000)"

text \<open>
  \<open>checkBillingDataThreshold\<close>, lines 315 to 336.  \<open>transaction.stop.totalConsumptionWh\<close>
  is evaluated only when the first disjunct is false, and throws when \<open>stop\<close> is missing.
\<close>

definition checkBillingDataThreshold ::
  "Utils \<Rightarrow> Transaction \<Rightarrow> 'w Sys \<Rightarrow> (error + bool) \<times> 'w Sys" where
  "checkBillingDataThreshold utils transaction s =
     (if \<not> isDevelopmentEnv utils then
        (if computeTimeSpentInSeconds transaction < 60 then
           (Inr False,
            logWarning ''stopTransaction''
              ''Transaction data is suspicious - Billing operation has been aborted'' s)
         else
           (case stop transaction of
              None \<Rightarrow> (Inl (TypeError ''Cannot read properties of undefined''), s)
            | Some st \<Rightarrow>
                if totalConsumptionWh st < 1000 then
                  (Inr False,
                   logWarning ''stopTransaction''
                     ''Transaction data is suspicious - Billing operation has been aborted'' s)
                else (Inr True, s)))
      else (Inr True, s))"

section \<open>The account synchronizer\<close>

text \<open>\<open>_synchronizeUser\<close>, lines 353 to 384.  The \<open>catch\<close> of the repair branch also covers
  \<open>createUser\<close> and \<open>updateUser\<close>.\<close>

definition priv_synchronizeUser ::
  "'w Env \<Rightarrow> User \<Rightarrow> bool \<Rightarrow> 'w Sys \<Rightarrow> (error + BillingUser option) \<times> 'w Sys" where
  "priv_synchronizeUser env usr forceMode s =
     (if \<not> forceMode then
        (case perform (isUserSynchronized env usr) (EvIsUserSynchronized usr) s of
           (Inl e, s1) \<Rightarrow> (Inl e, s1)
         | (Inr exists, s1) \<Rightarrow>
             if \<not> exists then perform (createUser env usr) (EvCreateUser usr) s1
             else perform (updateUser env usr) (EvUpdateUser usr) s1)
      else
        (case perform (getUser env usr) (EvGetUser usr) s of
           (Inl e, s1) \<Rightarrow> perform (repairUser env usr) (EvRepairUser usr) s1
         | (Inr billingUser, s1) \<Rightarrow>
             (case (if billingUser = None then perform (createUser env usr) (EvCreateUser usr) s1
                    else perform (updateUser env usr) (EvUpdateUser usr) s1) of
                (Inl e, s2) \<Rightarrow> perform (repairUser env usr) (EvRepairUser usr) s2
              | (Inr r, s2) \<Rightarrow> (Inr r, s2))))"

text \<open>\<open>synchronizeUser\<close>, lines 39 to 62.  An error that leaves the \<open>catch\<close> handler leaves
  the function.\<close>

definition synchronizeUser ::
  "'w Env \<Rightarrow> User \<Rightarrow> 'w Sys \<Rightarrow> (error + BillingUser option) \<times> 'w Sys" where
  "synchronizeUser env usr s =
     (case priv_synchronizeUser env usr False s of
        (Inr billingUser, s1) \<Rightarrow>
          (Inr billingUser,
           logInfo ''synchronizeUser''
             (''Successfully synchronized user: '' @ userId usr @ '' - '' @ email usr) s1)
      | (Inl e, s1) \<Rightarrow>
          (case logErrorWithStack ''synchronizeUser''
                  (''Failed to synchronize user: '' @ userId usr @ '' - '' @ email usr) e s1 of
             (Some t, s2) \<Rightarrow> (Inl t, s2)
           | (None, s2) \<Rightarrow> (Inr None, s2)))"

text \<open>\<open>billingUser?.billingData?.customerID\<close>\<close>

definition billingUserCustomerID :: "BillingUser option \<Rightarrow> string nullable" where
  "billingUserCustomerID u =
     (case u of None \<Rightarrow> Undefined
      | Some v \<Rightarrow> (case billingData v of None \<Rightarrow> Undefined | Some d \<Rightarrow> customerID d))"

text \<open>A value inside a template string.\<close>

definition showNullable :: "string nullable \<Rightarrow> string" where
  "showNullable v =
     (case v of Undefined \<Rightarrow> ''undefined'' | Null \<Rightarrow> ''null'' | Defined x \<Rightarrow> x)"

text \<open>\<open>forceSynchronizeUser\<close>, lines 64 to 94.\<close>

definition forceSynchronizeUser ::
  "'w Env \<Rightarrow> User \<Rightarrow> 'w Sys \<Rightarrow> (error + BillingUser option) \<times> 'w Sys" where
  "forceSynchronizeUser env usr s =
     (case priv_synchronizeUser env usr True s of
        (Inr billingUser, s1) \<Rightarrow>
          (Inr billingUser,
           logInfo ''forceSynchronizeUser''
             (''Successfully forced the synchronization of user: '' @ userId usr @ '' - '' @ email usr)
             (if userCustomerID (Some usr) \<noteq> billingUserCustomerID billingUser
              then logWarning ''forceSynchronizeUser''
                     (''CustomerID has been repaired - old value ''
                        @ showNullable (userCustomerID (Some usr)) @ '' - ''
                        @ showNullable (billingUserCustomerID billingUser)) s1
              else s1))
      | (Inl e, s1) \<Rightarrow>
          (case logErrorWithStack ''forceSynchronizeUser''
                  (''Failed to force the synchronization of user: ''
                     @ userId usr @ '' - '' @ email usr) e s1 of
             (Some t, s2) \<Rightarrow> (Inl t, s2)
           | (None, s2) \<Rightarrow> (Inr None, s2)))"

section \<open>Loops and callbacks\<close>

text \<open>
  A \<open>for ... of\<close> loop whose body may throw: the first error ends the loop, with the state
  reached.
\<close>

fun forOf :: "('a \<Rightarrow> 's \<Rightarrow> error option \<times> 's) \<Rightarrow> 'a list \<Rightarrow> 's \<Rightarrow> error option \<times> 's" where
  "forOf body [] s = (None, s)"
| "forOf body (x # xs) s =
     (case body x s of
        (Some e, s1) \<Rightarrow> (Some e, s1)
      | (None, s1) \<Rightarrow> forOf body xs s1)"

text \<open>One step of every element in turn, collecting the results.\<close>

fun traverse :: "('a \<Rightarrow> 's \<Rightarrow> 'b \<times> 's) \<Rightarrow> 'a list \<Rightarrow> 's \<Rightarrow> 'b list \<times> 's" where
  "traverse f [] s = ([], s)"
| "traverse f (x # xs) s =
     (case f x s of
        (y, s1) \<Rightarrow> (case traverse f xs s1 of (ys, s2) \<Rightarrow> (y # ys, s2)))"

text \<open>
  \<open>Promise.all(sessions.map(async (session) => ...))\<close>, in \<open>updateTransactionsBillingData\<close>
  and in \<open>clearTransactionsTestData\<close>.  \<open>map\<close> starts one callback for each session, and a
  callback runs up to its first \<open>await\<close>: every transaction is asked for, in the order of
  the sessions, before any callback goes on.  The store is taken to answer in the order
  in which it was asked.  So the callbacks go on in the order of the sessions once the
  transactions are read (for a callback this ends in a save that it awaits, in its
  \<open>catch\<close> handler, or at once), and once more when the saves are answered.
  \<open>Promise.all\<close> rejects with the first rejection of a callback; it cancels nothing, the
  other callbacks run to their end, and the state returned is the state after them.
\<close>

datatype callback = Settled | Rejected error | Saving "error + unit"

definition readTransaction ::
  "'w Env \<Rightarrow> BillingSession \<Rightarrow> 'w Sys \<Rightarrow> (error + Transaction option) \<times> 'w Sys" where
  "readTransaction env session =
     perform (getTransaction env (transactionID session)) (EvGetTransaction (transactionID session))"

text \<open>The \<open>catch\<close> handler of a callback: it logs, or rejects the callback.\<close>

definition catchInCallback :: "string \<Rightarrow> string \<Rightarrow> error \<Rightarrow> 'w Sys \<Rightarrow> callback \<times> 'w Sys" where
  "catchInCallback method message e s =
     (case logErrorWithStack method message e s of
        (Some t, s1) \<Rightarrow> (Rejected t, s1)
      | (None, s1) \<Rightarrow> (Settled, s1))"

text \<open>A callback that awaited its save goes on: a failed save is caught.\<close>

definition afterSave :: "string \<Rightarrow> string \<Rightarrow> callback \<Rightarrow> 'w Sys \<Rightarrow> callback \<times> 'w Sys" where
  "afterSave method message c s =
     (case c of
        Saving (Inl e) \<Rightarrow> catchInCallback method message e s
      | Saving (Inr ok) \<Rightarrow> (Settled, s)
      | Settled \<Rightarrow> (Settled, s)
      | Rejected t \<Rightarrow> (Rejected t, s))"

fun firstRejection :: "callback list \<Rightarrow> error option" where
  "firstRejection [] = None"
| "firstRejection (Rejected t # cs) = Some t"
| "firstRejection (c # cs) = firstRejection cs"

text \<open>The outcome of \<open>Promise.all\<close>, from the callbacks after the reads and after the saves.\<close>

definition promiseAll :: "callback list \<Rightarrow> callback list \<Rightarrow> error + unit" where
  "promiseAll afterReads afterSaves =
     (case firstRejection afterReads of
        Some t \<Rightarrow> Inl t
      | None \<Rightarrow> (case firstRejection afterSaves of Some t \<Rightarrow> Inl t | None \<Rightarrow> Inr ()))"

section \<open>The settlement batch runner\<close>

record BillingChargeInvoiceAction =
  inSuccess :: nat
  inError :: nat

text \<open>The variables of \<open>chargeInvoices\<close> that change while it runs, and the world.\<close>

record 'w ChargeRun =
  skip :: int
  actionsDone :: BillingChargeInvoiceAction
  sys :: "'w Sys"

text \<open>
  The body of the inner \<open>for\<close> loop, lines 113 to 155, for one invoice.  The \<open>catch\<close>
  handler counts the error first and logs it then; the error that leaves the handler
  leaves the loop.  A provider that resolves \<open>chargeInvoice\<close> with no invoice makes the
  next line throw a \<open>TypeError\<close> inside the same \<open>try\<close>; that case is an error result of
  \<open>chargeInvoice\<close> here.
\<close>

definition chargeInvoices_item ::
  "'w Env \<Rightarrow> BillingIntegration \<Rightarrow> bool \<Rightarrow> BillingInvoice \<Rightarrow> 'w ChargeRun
     \<Rightarrow> error option \<times> 'w ChargeRun" where
  "chargeInvoices_item env this forceOperation invoice st =
     (if isInvoiceOutOfPeriodicOperationScope this invoice then (None, st)
      else if \<not> forceOperation \<and> isSame_day (createdOn invoice) (momentNow env (world (sys st))) then
        (None,
         st\<lparr>actionsDone := (actionsDone st)\<lparr>inSuccess := inSuccess (actionsDone st) + 1\<rparr>,
            sys := logWarning ''chargeInvoices''
                     (''Invoice is too new - Operation has been skipped - '' @ invoiceId invoice)
                     (sys st)\<rparr>)
      else
        (case perform (chargeInvoice env invoice) (EvChargeInvoice invoice) (sys st) of
           (Inl e, s1) \<Rightarrow>
             (case logErrorWithStack ''chargeInvoices''
                     (''Failed to charge invoice '' @ invoiceId invoice) e s1 of
                (thrown, s2) \<Rightarrow>
                  (thrown,
                   st\<lparr>actionsDone := (actionsDone st)\<lparr>inError := inError (actionsDone st) + 1\<rparr>,
                      sys := s2\<rparr>))
         | (Inr newInvoice, s1) \<Rightarrow>
             (None,
              st\<lparr>skip := (if isInvoiceOutOfPeriodicOperationScope this newInvoice
                           then skip st - 1 else skip st),
                 actionsDone := (actionsDone st)\<lparr>inSuccess := inSuccess (actionsDone st) + 1\<rparr>,
                 sys := logInfo ''chargeInvoices''
                          (''Successfully charged invoice '' @ invoiceId invoice) s1\<rparr>)))"

text \<open>
  The \<open>while (true)\<close> loop, lines 107 to 156.  It ends when the store answers an empty
  page and is left by the error of a page query or by an error that leaves the loop
  over the page; nothing bounds the number of pages, so the model counts pages down
  from \<open>fuel\<close> and answers \<open>None\<close> when the loop is still running after \<open>fuel\<close> pages.
  The state reached is returned in every case.
\<close>

fun chargeInvoices_loop ::
  "nat \<Rightarrow> 'w Env \<Rightarrow> BillingIntegration \<Rightarrow> bool \<Rightarrow> PeriodicQuery \<Rightarrow> 'w ChargeRun
     \<Rightarrow> (error + BillingChargeInvoiceAction) option \<times> 'w ChargeRun" where
  "chargeInvoices_loop 0 env this forceOperation q st = (None, st)"
| "chargeInvoices_loop (Suc fuel) env this forceOperation q st =
     (case perform
             (getInvoices env (queryFilter q)
                \<lparr>dbLimit = queryLimit q, dbSkip = skip st, dbSort = querySort q\<rparr>)
             (EvGetInvoices (queryFilter q)
                \<lparr>dbLimit = queryLimit q, dbSkip = skip st, dbSort = querySort q\<rparr>)
             (sys st) of
        (Inl e, s1) \<Rightarrow> (Some (Inl e), st\<lparr>sys := s1\<rparr>)
      | (Inr invoices, s1) \<Rightarrow>
          if invoices = [] then (Some (Inr (actionsDone st)), st\<lparr>sys := s1\<rparr>)
          else
            (case forOf (chargeInvoices_item env this forceOperation) invoices
                    (st\<lparr>skip := skip st + int (queryLimit q), sys := s1\<rparr>) of
               (Some t, st1) \<Rightarrow> (Some (Inl t), st1)
             | (None, st1) \<Rightarrow> chargeInvoices_loop fuel env this forceOperation q st1))"

text \<open>\<open>chargeInvoices\<close>, lines 96 to 158.\<close>

definition chargeInvoices ::
  "nat \<Rightarrow> 'w Env \<Rightarrow> BillingIntegration \<Rightarrow> Utils \<Rightarrow> bool \<Rightarrow> 'w Sys
     \<Rightarrow> (error + BillingChargeInvoiceAction) option \<times> 'w ChargeRun" where
  "chargeInvoices fuel env this utils forceOperation s =
     (case perform (checkConnection env) EvCheckConnection s of
        (Inl e, s1) \<Rightarrow>
          (Some (Inl e), \<lparr>skip = 0, actionsDone = \<lparr>inSuccess = 0, inError = 0\<rparr>, sys = s1\<rparr>)
      | (Inr ok, s1) \<Rightarrow>
          chargeInvoices_loop fuel env this forceOperation
            (preparePeriodicBillingQueryParameters this utils (momentNow env (world s1)) forceOperation)
            \<lparr>skip = 0, actionsDone = \<lparr>inSuccess = 0, inError = 0\<rparr>, sys = s1\<rparr>)"

section \<open>The notification bridge\<close>

text \<open>The \<open>catch\<close> handler of \<open>sendInvoiceNotification\<close>, lines 190 to 200.\<close>

definition sendInvoiceNotification_catch ::
  "BillingInvoice \<Rightarrow> error \<Rightarrow> 'w Sys \<Rightarrow> (error + bool option) \<times> 'w Sys" where
  "sendInvoiceNotification_catch billingInvoice e s =
     (case logErrorWithStack ''sendInvoiceNotification''
             (''Failed to send notification for invoice '' @ invoiceId billingInvoice) e s of
        (Some t, s1) \<Rightarrow> (Inl t, s1)
      | (None, s1) \<Rightarrow> (Inr (Some False), s1))"

text \<open>
  \<open>sendInvoiceNotification\<close>, lines 160 to 201.  The result \<open>Inr None\<close> is the
  \<open>undefined\<close> of a call that reaches the end of the function without a \<open>return\<close>.
  \<open>new Decimal(amount).div(100)\<close> is the exact quotient; its conversion to a floating
  point number for \<open>Intl.NumberFormat\<close> is part of the formatter \<open>formatCurrency\<close>.
  The notification is handed over without being awaited.
\<close>

definition sendInvoiceNotification ::
  "'w Env \<Rightarrow> BillingIntegration \<Rightarrow> Utils \<Rightarrow> BillingInvoice \<Rightarrow> 'w Sys
     \<Rightarrow> (error + bool option) \<times> 'w Sys" where
  "sendInvoiceNotification env this utils billingInvoice s =
     (if status billingInvoice = OPEN \<or> status billingInvoice = PAID then
        (case perform (getTenant env (tenantId (tenant this))) (EvGetTenant (tenantId (tenant this))) s of
           (Inl e, s1) \<Rightarrow> sendInvoiceNotification_catch billingInvoice e s1
         | (Inr tenantRead, s1) \<Rightarrow>
             (case formatCurrency utils
                     (convertLocaleForCurrency utils (userLocale (invoiceUser billingInvoice)))
                     (toUpperCase utils (currency billingInvoice))
                     (of_int (amount billingInvoice) / 100) of
                Inl e \<Rightarrow> sendInvoiceNotification_catch billingInvoice e s1
              | Inr formatted \<Rightarrow>
                  (case tenantRead of
                     None \<Rightarrow>
                       sendInvoiceNotification_catch billingInvoice
                         (TypeError ''Cannot read properties of null'') s1
                   | Some t \<Rightarrow>
                       (Inr (Some True),
                        emit (EvSendBillingNewInvoiceNotification (invoiceId billingInvoice)
                               \<lparr>notifyUser = invoiceUser billingInvoice,
                                evseDashboardInvoiceURL = buildEvseBillingInvoicesURL utils (subdomain t),
                                evseDashboardURL = buildEvseURL utils (subdomain t),
                                invoiceDownloadUrl =
                                  buildEvseBillingDownloadInvoicesURL utils (subdomain t)
                                    (invoiceId billingInvoice),
                                payInvoiceUrlSent =
                                  (if status billingInvoice = OPEN then payInvoiceUrl billingInvoice
                                   else []),
                                invoiceAmount = formatted,
                                invoiceNumberSent = number billingInvoice,
                                invoiceStatusSent = status billingInvoice\<rparr>) s1))))
      else (Inr None, s))"

section \<open>Mirroring the invoice into its transactions\<close>

text \<open>The billing data that mirrors an invoice, as lines 295 to 297 write it.\<close>

definition mirrored ::
  "'w Env \<Rightarrow> 'w \<Rightarrow> BillingInvoice \<Rightarrow> BillingData \<Rightarrow> BillingDataTransactionStop \<Rightarrow> BillingData" where
  "mirrored env w billingInvoice bd st =
     bd\<lparr>billingStop := Some (st\<lparr>invoiceStatus := Some (status billingInvoice),
                                 invoiceNumber := Some (number billingInvoice)\<rparr>),
        lastUpdate := newDate env w\<rparr>"

text \<open>
  The callback of \<open>updateTransactionsBillingData\<close>, lines 289 to 312, from the answer to
  its read up to its next \<open>await\<close>.
\<close>

definition updateTransactionsBillingData_afterRead ::
  "'w Env \<Rightarrow> BillingInvoice \<Rightarrow> error + Transaction option \<Rightarrow> 'w Sys \<Rightarrow> callback \<times> 'w Sys" where
  "updateTransactionsBillingData_afterRead env billingInvoice r s =
     (case r of
        Inl e \<Rightarrow>
          catchInCallback ''updateTransactionsBillingData''
            ''Failed to update Transaction Billing data of Transaction ID'' e s
      | Inr None \<Rightarrow> (Settled, s)
      | Inr (Some transaction) \<Rightarrow>
          (case transactionBillingData transaction of
             None \<Rightarrow> (Settled, s)
           | Some bd \<Rightarrow>
               (case billingStop bd of
                  None \<Rightarrow> (Settled, s)
                | Some st \<Rightarrow>
                    (case perform
                            (saveTransactionBillingData env (transactionId transaction)
                               (mirrored env (world s) billingInvoice bd st))
                            (EvSaveTransactionBillingData (transactionId transaction)
                               (mirrored env (world s) billingInvoice bd st))
                            s of
                       (saved, s1) \<Rightarrow> (Saving saved, s1)))))"

text \<open>\<open>updateTransactionsBillingData\<close>, lines 284 to 313.\<close>

definition updateTransactionsBillingData ::
  "'w Env \<Rightarrow> BillingInvoice \<Rightarrow> 'w Sys \<Rightarrow> (error + unit) \<times> 'w Sys" where
  "updateTransactionsBillingData env billingInvoice s =
     (case sessions billingInvoice of
        None \<Rightarrow> (Inl (PlainError ''Unexpected situation - Invoice has no sessions attached to it''), s)
      | Some ss \<Rightarrow>
          (case traverse (readTransaction env) ss s of
             (reads, s1) \<Rightarrow>
               (case traverse (updateTransactionsBillingData_afterRead env billingInvoice) reads s1 of
                  (afterReads, s2) \<Rightarrow>
                    (case traverse
                            (afterSave ''updateTransactionsBillingData''
                               ''Failed to update Transaction Billing data of Transaction ID'')
                            afterReads s2 of
                       (afterSaves, s3) \<Rightarrow> (promiseAll afterReads afterSaves, s3)))))"

section \<open>The purge of test data\<close>

text \<open>
  The callback of \<open>clearTransactionsTestData\<close>, lines 451 to 478, from the answer to its
  read up to its next \<open>await\<close>.  Without a transaction, the assignment of line 462 throws.
\<close>

definition clearTransactionsTestData_afterRead ::
  "'w Env \<Rightarrow> error + Transaction option \<Rightarrow> 'w Sys \<Rightarrow> callback \<times> 'w Sys" where
  "clearTransactionsTestData_afterRead env r s =
     (case r of
        Inl e \<Rightarrow>
          catchInCallback ''clearTransactionsTestData'' ''Failed to clear transaction Billing data'' e s
      | Inr None \<Rightarrow>
          catchInCallback ''clearTransactionsTestData'' ''Failed to clear transaction Billing data''
            (TypeError ''Cannot set properties of null'') s
      | Inr (Some transaction) \<Rightarrow>
          (case perform
                  (saveTransactionBillingData env (transactionId transaction)
                     \<lparr>withBillingActive = False, lastUpdate = newDate env (world s),
                      billingStop = Some \<lparr>billingStatus = Some UNBILLED, invoiceID = None,
                                          invoiceNumber = None, invoiceStatus = None\<rparr>\<rparr>)
                  (EvSaveTransactionBillingData (transactionId transaction)
                     \<lparr>withBillingActive = False, lastUpdate = newDate env (world s),
                      billingStop = Some \<lparr>billingStatus = Some UNBILLED, invoiceID = None,
                                          invoiceNumber = None, invoiceStatus = None\<rparr>\<rparr>)
                  s of
             (saved, s1) \<Rightarrow> (Saving saved, s1)))"

text \<open>\<open>clearTransactionsTestData\<close>, lines 450 to 479: \<open>sessions.map\<close> throws without sessions.\<close>

definition clearTransactionsTestData ::
  "'w Env \<Rightarrow> BillingInvoice \<Rightarrow> 'w Sys \<Rightarrow> (error + unit) \<times> 'w Sys" where
  "clearTransactionsTestData env billingInvoice s =
     (case sessions billingInvoice of
        None \<Rightarrow> (Inl (TypeError ''Cannot read properties of undefined''), s)
      | Some ss \<Rightarrow>
          (case traverse (readTransaction env) ss s of
             (reads, s1) \<Rightarrow>
               (case traverse (clearTransactionsTestData_afterRead env) reads s1 of
                  (afterReads, s2) \<Rightarrow>
                    (case traverse
                            (afterSave ''clearTransactionsTestData''
                               ''Failed to clear transaction Billing data'')
                            afterReads s2 of
                       (afterSaves, s3) \<Rightarrow> (promiseAll afterReads afterSaves, s3)))))"

text \<open>\<open>clearInvoiceTestData\<close>, lines 437 to 448.\<close>

definition clearInvoiceTestData ::
  "'w Env \<Rightarrow> BillingInvoice \<Rightarrow> 'w Sys \<Rightarrow> (error + unit) \<times> 'w Sys" where
  "clearInvoiceTestData env billingInvoice s =
     (if liveMode billingInvoice then
        (Inl (BackendError
               ''Unexpected situation - Attempt to clear an invoice with live Billing data''), s)
      else
        (case clearTransactionsTestData env billingInvoice s of
           (Inl e, s1) \<Rightarrow> (Inl e, s1)
         | (Inr ok, s1) \<Rightarrow>
             perform (deleteInvoice env (invoiceId billingInvoice))
               (EvDeleteInvoice (invoiceId billingInvoice)) s1))"

text \<open>
  The body of the loop of \<open>clearAllInvoiceTestData\<close>, lines 414 to 434, for one invoice:
  the error that leaves the \<open>catch\<close> handler leaves the loop.
\<close>

definition clearAllInvoiceTestData_item ::
  "'w Env \<Rightarrow> BillingInvoice \<Rightarrow> 'w Sys \<Rightarrow> error option \<times> 'w Sys" where
  "clearAllInvoiceTestData_item env invoice s =
     (case clearInvoiceTestData env invoice s of
        (Inr ok, s1) \<Rightarrow>
          (None,
           logInfo ''clearAllInvoiceTestData''
             (''Successfully clear test data for invoice '' @ invoiceId invoice) s1)
      | (Inl e, s1) \<Rightarrow>
          logErrorWithStack ''clearAllInvoiceTestData''
            (''Failed to clear invoice test data - Invoice: '' @ invoiceId invoice) e s1)"

text \<open>\<open>clearAllInvoiceTestData\<close>, lines 411 to 435.\<close>

definition clearAllInvoiceTestData ::
  "'w Env \<Rightarrow> Utils \<Rightarrow> 'w Sys \<Rightarrow> (error + unit) \<times> 'w Sys" where
  "clearAllInvoiceTestData env utils s =
     (case perform
             (getInvoices env
                \<lparr>startDateTime = None, endDateTime = None, filterInvoiceStatus = None,
                 filterLiveMode = Some False\<rparr> (DB_PARAMS_MAX_LIMIT utils))
             (EvGetInvoices
                \<lparr>startDateTime = None, endDateTime = None, filterInvoiceStatus = None,
                 filterLiveMode = Some False\<rparr> (DB_PARAMS_MAX_LIMIT utils)) s of
        (Inl e, s1) \<Rightarrow> (Inl e, s1)
      | (Inr invoices, s1) \<Rightarrow>
          (case forOf (clearAllInvoiceTestData_item env) invoices s1 of
             (Some t, s2) \<Rightarrow> (Inl t, s2)
           | (None, s2) \<Rightarrow> (Inr (), s2)))"

section \<open>Observing a run\<close>

text \<open>The events a call added to the trace.\<close>

definition newEvents :: "'w Sys \<Rightarrow> 'w Sys \<Rightarrow> event list" where
  "newEvents s s' = drop (length (trace s)) (trace s')"

fun isCreateUser :: "event \<Rightarrow> bool" where
  "isCreateUser (EvCreateUser u r) = True"
| "isCreateUser ev = False"

fun isUpdateUser :: "event \<Rightarrow> bool" where
  "isUpdateUser (EvUpdateUser u r) = True"
| "isUpdateUser ev = False"

fun isRepairUser :: "event \<Rightarrow> bool" where
  "isRepairUser (EvRepairUser u r) = True"
| "isRepairUser ev = False"

fun isErrorLog :: "event \<Rightarrow> bool" where
  "isErrorLog (EvLog LogError method message) = True"
| "isErrorLog ev = False"

fun isGetTransaction :: "event \<Rightarrow> bool" where
  "isGetTransaction (EvGetTransaction n r) = True"
| "isGetTransaction ev = False"

text \<open>A page: a page query that the store answered with at least one invoice.\<close>

fun isPage :: "event \<Rightarrow> bool" where
  "isPage (EvGetInvoices f p (Inr (x # xs))) = True"
| "isPage ev = False"

text \<open>A settlement whose resulting invoice is out of the periodic scope.\<close>

fun settledOutOfScope :: "BillingIntegration \<Rightarrow> event \<Rightarrow> bool" where
  "settledOutOfScope this (EvChargeInvoice invoice (Inr newInvoice)) =
     isInvoiceOutOfPeriodicOperationScope this newInvoice"
| "settledOutOfScope this ev = False"

definition pages :: "event list \<Rightarrow> int" where
  "pages evs = int (length (filter isPage evs))"

definition compensations :: "BillingIntegration \<Rightarrow> event list \<Rightarrow> int" where
  "compensations this evs = int (length (filter (settledOutOfScope this) evs))"

text \<open>The quantity that the pagination loop keeps constant.\<close>

definition balance :: "BillingIntegration \<Rightarrow> nat \<Rightarrow> 'w ChargeRun \<Rightarrow> int" where
  "balance this pageSize st =
     skip st + compensations this (trace (sys st)) - int pageSize * pages (trace (sys st))"






text \<open>A store that rejects no read and no save of a transaction with \<open>null\<close> or \<open>undefined\<close>.\<close>

definition neverRejectsTransactionNullish :: "'w Env \<Rightarrow> bool" where
  "neverRejectsTransactionNullish env =
     ((\<forall>n w. fst (getTransaction env n w) \<noteq> Inl NullishRejection)
      \<and> (\<forall>n d w. fst (saveTransactionBillingData env n d w) \<noteq> Inl NullishRejection))"

text \<open>\<open>transaction?.billingData?.stop\<close> is set.\<close>

definition populatedStop :: "Transaction option \<Rightarrow> bool" where
  "populatedStop t =
     (case t of
        None \<Rightarrow> False
      | Some transaction \<Rightarrow>
          (case transactionBillingData transaction of
             None \<Rightarrow> False
           | Some bd \<Rightarrow> billingStop bd \<noteq> None))"

section \<open>Example inputs\<close>

definition example_tenant :: Tenant where
  "example_tenant = \<lparr>tenantId = ''tenant-1'', subdomain = ''acme''\<rparr>"

definition example_this :: BillingIntegration where
  "example_this =
     \<lparr>tenant = example_tenant,
      settings = \<lparr>billing = Some \<lparr>isTransactionBillingActivated = True,
                                  periodicBillingAllowed = False\<rparr>\<rparr>\<rparr>"

definition example_utils :: Utils where
  "example_utils =
     \<lparr>isDevelopmentEnv = False,
      isTenantComponentActive = (\<lambda>t c. True),
      BATCH_PAGE_SIZE = 100,
      DB_PARAMS_MAX_LIMIT = \<lparr>dbLimit = 1000, dbSkip = 0, dbSort = []\<rparr>,
      convertLocaleForCurrency = (\<lambda>l. l),
      formatCurrency =
        (\<lambda>l c v. if c = ''EUR'' then Inr (if v = 21 / 2 then ''10,50 EUR'' else ''EUR'')
                  else Inl (ExternalError ''RangeError: Invalid currency code'')),
      toUpperCase = (\<lambda>c. if c = ''eur'' then ''EUR'' else c),
      buildEvseBillingInvoicesURL = (\<lambda>d. d @ ''/invoices''),
      buildEvseURL = (\<lambda>d. d),
      buildEvseBillingDownloadInvoicesURL = (\<lambda>d i. d @ ''/invoices/'' @ i)\<rparr>"

definition example_user :: User where
  "example_user =
     \<lparr>userId = ''u1'', email = ''u1@example.org'', userLocale = ''fr-FR'', freeAccess = False,
      userBillingData = Some \<lparr>customerID = Defined ''cus_1''\<rparr>\<rparr>"

definition example_now :: Moment where
  "example_now =
     \<lparr>year = 2024, month = 3, day = 15, hour = 10, minute = 30, second = 5, millisecond = 250\<rparr>"

definition example_invoice :: BillingInvoice where
  "example_invoice =
     \<lparr>invoiceId = ''in_1'', invoiceUser = example_user, status = OPEN, liveMode = False,
      createdOn =
        \<lparr>year = 2024, month = 2, day = 10, hour = 9, minute = 0, second = 0, millisecond = 0\<rparr>,
      sessions = Some [\<lparr>transactionID = 7\<rparr>, \<lparr>transactionID = 8\<rparr>, \<lparr>transactionID = 9\<rparr>],
      amount = 1050, currency = ''eur'', number = ''INV-1'', payInvoiceUrl = ''https://pay/in_1''\<rparr>"

text \<open>A session of two minutes and two kilowatt hours, billed on a draft invoice.\<close>

definition example_transaction :: Transaction where
  "example_transaction =
     \<lparr>transactionId = 7, userID = Defined ''u1'', user = Some example_user, timestamp = 0,
      stop = Some \<lparr>stopTimestamp = 120000, totalConsumptionWh = 2000\<rparr>,
      lastConsumption = \<lparr>lastTimestamp = 120000\<rparr>,
      transactionBillingData =
        Some \<lparr>withBillingActive = True, lastUpdate = 0,
              billingStop = Some \<lparr>billingStatus = Some BILLED, invoiceID = Some ''in_1'',
                                  invoiceNumber = None, invoiceStatus = Some DRAFT\<rparr>\<rparr>\<rparr>"

text \<open>
  A world that counts the page queries.  The provider has lost its customers and
  declines every invoice but \<open>in_1\<close>; the store answers the first page query with two
  invoices and the later ones with none; it holds transaction 7 with billing data,
  transaction 8 without, and fails on any other transaction.
\<close>

definition example_env :: "nat Env" where
  "example_env =
     \<lparr>checkConnection = (\<lambda>w. (Inr (), w)),
      isUserSynchronized = (\<lambda>u w. (Inr (userBillingData u \<noteq> None), w)),
      getUser = (\<lambda>u w. (Inl (ExternalError ''No such customer''), w)),
      createUser = (\<lambda>u w. (Inl (ExternalError ''provider unavailable''), w)),
      updateUser = (\<lambda>u w. (Inl (ExternalError ''No such customer''), w)),
      repairUser =
        (\<lambda>u w. (Inr (Some \<lparr>billingUserID = userId u,
                             billingData = Some \<lparr>customerID = Defined ''cus_2''\<rparr>\<rparr>), w)),
      chargeInvoice =
        (\<lambda>i w. if invoiceId i = ''in_1'' then (Inr (i\<lparr>status := PAID\<rparr>), w)
                else (Inl (ExternalError ''card declined''), w)),
      getInvoices =
        (\<lambda>f p w. (if w = 0 then Inr [example_invoice, example_invoice\<lparr>invoiceId := ''in_2''\<rparr>]
                   else Inr [], Suc w)),
      deleteInvoice = (\<lambda>i w. (Inr (), w)),
      getTransaction =
        (\<lambda>n w. (if n = 7 then Inr (Some example_transaction)
                  else if n = 8
                    then Inr (Some (example_transaction\<lparr>transactionId := 8,
                                                         transactionBillingData := None\<rparr>))
                  else Inl (ExternalError ''store unavailable''), w)),
      saveTransactionBillingData = (\<lambda>n d w. (Inr (), w)),
      getTenant = (\<lambda>i w. (Inr (Some example_tenant), w)),
      momentNow = (\<lambda>w. example_now),
      newDate = (\<lambda>w. 1000)\<rparr>"

text \<open>The same world with a store whose page query fails, and with a provider that is down.\<close>

definition example_env_store_down :: "nat Env" where
  "example_env_store_down =
     example_env\<lparr>getInvoices := (\<lambda>f p w. (Inl (ExternalError ''store unavailable''), Suc w))\<rparr>"

definition example_env_provider_down :: "nat Env" where
  "example_env_provider_down =
     example_env\<lparr>repairUser := (\<lambda>u w. (Inl (ExternalError ''provider unavailable''), w)),
                 isUserSynchronized := (\<lambda>u w. (Inl (ExternalError ''provider unavailable''), w))\<rparr>"

definition example_env_unlinked :: "nat Env" where
  "example_env_unlinked = example_env\<lparr>getUser := (\<lambda>u w. (Inr None, w))\<rparr>"

text \<open>
  A store that answers the query of the purge with a live invoice followed by a test
  invoice without sessions, and a store that rejects the read of every transaction but
  7 with \<open>undefined\<close>.
\<close>

definition example_env_live_invoice :: "nat Env" where
  "example_env_live_invoice =
     example_env\<lparr>getInvoices :=
       (\<lambda>f p w. (Inr [example_invoice\<lparr>liveMode := True\<rparr>,
                        example_invoice\<lparr>invoiceId := ''in_2'', sessions := Some []\<rparr>], Suc w))\<rparr>"

definition example_env_nullish_store :: "nat Env" where
  "example_env_nullish_store =
     example_env\<lparr>getTransaction :=
       (\<lambda>n w. (if n = 7 then Inr (Some example_transaction) else Inl NullishRejection, w))\<rparr>"

definition example_sys :: "nat Sys" where
  "example_sys = \<lparr>world = 0, trace = []\<rparr>"

lemmas example_defs =
  example_env_def example_sys_def example_this_def example_utils_def example_invoice_def
  example_user_def example_now_def example_tenant_def example_transaction_def
  example_env_store_down_def example_env_provider_down_def example_env_unlinked_def
  example_env_live_invoice_def example_env_nullish_store_def

section \<open>Basic facts\<close>

declare date_set.simps [simp del]

lemma perform_eq:
  "perform op ev s =
     (fst (op (world s)),
      \<lparr>world = snd (op (world s)), trace = trace s @ [ev (fst (op (world s)))]\<rparr>)"
  by (simp add: perform_def Let_def)

lemmas log_defs = logInfo_def logWarning_def logError_def emit_def

section \<open>The eligibility guard and the usage threshold: properties\<close>

text \<open>
  Claim C6, as stated, lets free access win over a missing user identity.  The code tests
  the identity first: a transaction whose \<open>user\<close> has free access but whose \<open>userID\<close>
  is missing is refused with a fatal error, although billing is activated and the
  charging station and the site area are there.
\<close>

theorem checkStartTransaction_free_access_without_userID:
  "freeAccess (example_user\<lparr>freeAccess := True\<rparr>)
   \<and> checkStartTransaction example_this example_utils
         (example_transaction\<lparr>userID := Undefined,
                                user := Some (example_user\<lparr>freeAccess := True\<rparr>)\<rparr>)
         (Some \<lparr>chargingStationId = ''cs-1''\<rparr>) (Some \<lparr>accessControl = True\<rparr>)
       = Inl (BackendError ''User ID is not provided'')"
  by (simp add: checkStartTransaction_def example_this_def example_transaction_def truthy_def)

text \<open>
  Claim C6, amended: the decision table of \<open>checkStartTransaction\<close> in the order of the
  code, for settings that carry a billing section.  It returns \<open>false\<close> when transaction
  billing is not activated; otherwise it fails when the \<open>userID\<close> or the \<open>user\<close> is
  missing; otherwise it returns \<open>false\<close> for a user with free access; otherwise it fails
  without a charging station; otherwise, when the organization component is active, it
  fails without a site area and returns \<open>false\<close> for a site area without access control;
  otherwise it fails for a user without a customer ID, and returns \<open>true\<close> when every check
  has passed.
\<close>

theorem checkStartTransaction_decision:
  assumes "billing (settings this) = Some b"
  shows "(\<not> isTransactionBillingActivated b \<longrightarrow>
            checkStartTransaction this utils transaction chargingStation siteArea = Inr False)
       \<and> (isTransactionBillingActivated b
            \<and> (\<not> truthy (userID transaction) \<or> user transaction = None) \<longrightarrow>
            checkStartTransaction this utils transaction chargingStation siteArea
              = Inl (BackendError ''User ID is not provided''))
       \<and> (\<forall>u. isTransactionBillingActivated b \<and> truthy (userID transaction)
              \<and> user transaction = Some u \<longrightarrow>
            (freeAccess u \<longrightarrow>
               checkStartTransaction this utils transaction chargingStation siteArea = Inr False)
          \<and> (\<not> freeAccess u \<and> chargingStation = None \<longrightarrow>
               checkStartTransaction this utils transaction chargingStation siteArea
                 = Inl (BackendError ''The Charging Station is mandatory to start a Transaction''))
          \<and> (\<not> freeAccess u \<and> chargingStation \<noteq> None
                \<and> isTenantComponentActive utils (tenant this) ORGANIZATION \<and> siteArea = None \<longrightarrow>
               checkStartTransaction this utils transaction chargingStation siteArea
                 = Inl (BackendError ''The Site Area is mandatory to start a Transaction''))
          \<and> (\<forall>a. \<not> freeAccess u \<and> chargingStation \<noteq> None
                \<and> isTenantComponentActive utils (tenant this) ORGANIZATION
                \<and> siteArea = Some a \<and> \<not> accessControl a \<longrightarrow>
               checkStartTransaction this utils transaction chargingStation siteArea = Inr False)
          \<and> (\<not> freeAccess u \<and> chargingStation \<noteq> None
                \<and> (isTenantComponentActive utils (tenant this) ORGANIZATION
                     \<longrightarrow> (\<exists>a. siteArea = Some a \<and> accessControl a))
                \<and> \<not> truthy (userCustomerID (Some u)) \<longrightarrow>
               checkStartTransaction this utils transaction chargingStation siteArea
                 = Inl (BackendError ''User has no Billing data or no Customer ID''))
          \<and> (\<not> freeAccess u \<and> chargingStation \<noteq> None
                \<and> (isTenantComponentActive utils (tenant this) ORGANIZATION
                     \<longrightarrow> (\<exists>a. siteArea = Some a \<and> accessControl a))
                \<and> truthy (userCustomerID (Some u)) \<longrightarrow>
               checkStartTransaction this utils transaction chargingStation siteArea = Inr True))"
  using assms
  by (auto simp: checkStartTransaction_def split: option.splits)

theorem checkStartTransaction_decision_witness:
  "billing (settings example_this)
     = Some \<lparr>isTransactionBillingActivated = True, periodicBillingAllowed = False\<rparr>
   \<and> checkStartTransaction example_this example_utils example_transaction
        (Some \<lparr>chargingStationId = ''cs-1''\<rparr>) (Some \<lparr>accessControl = True\<rparr>) = Inr True
   \<and> checkStartTransaction example_this example_utils example_transaction
        (Some \<lparr>chargingStationId = ''cs-1''\<rparr>) (Some \<lparr>accessControl = False\<rparr>) = Inr False
   \<and> checkStartTransaction example_this example_utils example_transaction
        None (Some \<lparr>accessControl = True\<rparr>)
        = Inl (BackendError ''The Charging Station is mandatory to start a Transaction'')"
proof -
  have h: "billing (settings example_this)
             = Some \<lparr>isTransactionBillingActivated = True, periodicBillingAllowed = False\<rparr>"
    by (simp add: example_this_def)
  have u: "user example_transaction = Some example_user" "truthy (userID example_transaction)"
      "\<not> freeAccess example_user" "truthy (userCustomerID (Some example_user))"
      "isTenantComponentActive example_utils (tenant example_this) ORGANIZATION"
    by (simp_all add: example_transaction_def example_user_def example_utils_def truthy_def
          userCustomerID_def)
  show ?thesis
    using h u
      checkStartTransaction_decision [OF h, where transaction = example_transaction
        and utils = example_utils and chargingStation = "Some \<lparr>chargingStationId = ''cs-1''\<rparr>"
        and siteArea = "Some \<lparr>accessControl = True\<rparr>"]
      checkStartTransaction_decision [OF h, where transaction = example_transaction
        and utils = example_utils and chargingStation = "Some \<lparr>chargingStationId = ''cs-1''\<rparr>"
        and siteArea = "Some \<lparr>accessControl = False\<rparr>"]
      checkStartTransaction_decision [OF h, where transaction = example_transaction
        and utils = example_utils and chargingStation = None
        and siteArea = "Some \<lparr>accessControl = True\<rparr>"]
    by simp
qed

text \<open>
  The threshold check on the transactions that carry stop data, and in a development
  environment: below sixty seconds or below one kilowatt hour the billing is suppressed,
  from both thresholds on it goes ahead, and a development environment skips the check.
\<close>

lemma checkBillingDataThreshold_cases:
  "(isDevelopmentEnv utils \<longrightarrow> checkBillingDataThreshold utils transaction s = (Inr True, s))
 \<and> (\<not> isDevelopmentEnv utils \<and> computeTimeSpentInSeconds transaction < 60 \<longrightarrow>
       fst (checkBillingDataThreshold utils transaction s) = Inr False)
 \<and> (\<forall>st. \<not> isDevelopmentEnv utils \<and> stop transaction = Some st \<and> totalConsumptionWh st < 1000 \<longrightarrow>
       fst (checkBillingDataThreshold utils transaction s) = Inr False)
 \<and> (\<forall>st. \<not> isDevelopmentEnv utils \<and> stop transaction = Some st
         \<and> \<not> computeTimeSpentInSeconds transaction < 60 \<and> \<not> totalConsumptionWh st < 1000 \<longrightarrow>
       checkBillingDataThreshold utils transaction s = (Inr True, s))"
  by (auto simp: checkBillingDataThreshold_def)

text \<open>Thirty seconds and half a kilowatt hour; two minutes and two kilowatt hours.\<close>

lemma checkBillingDataThreshold_examples:
  "fst (checkBillingDataThreshold example_utils
          (example_transaction\<lparr>stop := Some \<lparr>stopTimestamp = 30000, totalConsumptionWh = 500\<rparr>\<rparr>)
          example_sys)
     = Inr False"
  "fst (checkBillingDataThreshold example_utils example_transaction example_sys) = Inr True"
  "fst (checkBillingDataThreshold (example_utils\<lparr>isDevelopmentEnv := True\<rparr>)
          (example_transaction\<lparr>stop := Some \<lparr>stopTimestamp = 30000, totalConsumptionWh = 500\<rparr>\<rparr>)
          example_sys)
     = Inr True"
  by (simp_all add: checkBillingDataThreshold_def computeTimeSpentInSeconds_def
        example_utils_def example_transaction_def)

text \<open>
  Claim C7 fails on a transaction without stop data: \<open>computeTimeSpentInSeconds\<close> falls
  back on the last consumption, and once the two minutes so measured pass the first
  threshold, the check reads \<open>transaction.stop.totalConsumptionWh\<close> and throws instead of
  answering.
\<close>

theorem checkBillingDataThreshold_missing_stop:
  "\<not> isDevelopmentEnv example_utils
   \<and> computeTimeSpentInSeconds (example_transaction\<lparr>stop := None\<rparr>) = 120
   \<and> checkBillingDataThreshold example_utils (example_transaction\<lparr>stop := None\<rparr>) example_sys
       = (Inl (TypeError ''Cannot read properties of undefined''), example_sys)"
  by (simp add: checkBillingDataThreshold_def computeTimeSpentInSeconds_def
        example_utils_def example_transaction_def)

section \<open>The periodic query window: properties\<close>

lemma daysInMonth_pos: "1 \<le> daysInMonth y m"
  by (simp add: daysInMonth_def)

lemma date_set_zero:
  "date_set 0 t =
     t\<lparr>year := fst (previousMonth (year t, month t)),
       month := snd (previousMonth (year t, month t)),
       day := daysInMonth (fst (previousMonth (year t, month t)))
                (snd (previousMonth (year t, month t)))\<rparr>"
  by (subst date_set.simps) (simp add: Let_def)

lemma date_set_one: "date_set 1 t = t\<lparr>day := 1\<rparr>"
  using daysInMonth_pos [of "year t" "month t"]
  by (subst date_set.simps) simp

lemma year_month_date_set_zero:
  "year (date_set 0 t) = fst (previousMonth (year t, month t))"
  "month (date_set 0 t) = snd (previousMonth (year t, month t))"
  by (simp_all add: date_set_zero)

lemma startOf_day_first:
  "startOf_day (date_set 1 t) =
     \<lparr>year = year t, month = month t, day = 1, hour = 0, minute = 0, second = 0, millisecond = 0\<rparr>"
  unfolding date_set_one startOf_day_def by (cases t) simp

text \<open>
  The window of the monthly run holds the moments of the previous calendar month and no
  other: those from its start on and before its end.
\<close>

lemma previous_month_window:
  assumes "1 \<le> month now" "month now \<le> 12" "1 \<le> month t" "month t \<le> 12" "1 \<le> day t"
  shows "(isSameOrAfter t (startOf_day (date_set 1 (date_set 0 now)))
           \<and> isBefore t (startOf_day (date_set 1 now)))
         = ((year t, month t) = previousMonth (year now, month now))"
  using assms
  unfolding startOf_day_first year_month_date_set_zero
  by (auto simp: isSameOrAfter_def isBefore_def previousMonth_def)

text \<open>
  Claim C5.  A forced run queries from today 00:00:00.000 to today 23:59:59.999 with
  pages of one invoice.  A normal run queries with pages of \<open>BATCH_PAGE_SIZE\<close>, from the
  first day of the previous month at 00:00:00.000 to the first day of this month at
  00:00:00.000, and the moments from the start on and before the end are those of the
  previous calendar month.  In both modes the statuses are \<open>DRAFT\<close> and \<open>OPEN\<close> when the
  settings allow periodic billing and \<open>OPEN\<close> alone otherwise, and the sort is by
  \<open>createdOn\<close>, ascending.
\<close>

theorem preparePeriodicBillingQueryParameters_window:
  assumes "validMoment now"
  shows "(forceOperation \<longrightarrow>
            queryLimit (preparePeriodicBillingQueryParameters this utils now forceOperation) = 1
          \<and> startDateTime (queryFilter (preparePeriodicBillingQueryParameters this utils now forceOperation))
              = Some (now\<lparr>hour := 0, minute := 0, second := 0, millisecond := 0\<rparr>)
          \<and> endDateTime (queryFilter (preparePeriodicBillingQueryParameters this utils now forceOperation))
              = Some (now\<lparr>hour := 23, minute := 59, second := 59, millisecond := 999\<rparr>))
       \<and> (\<not> forceOperation \<longrightarrow>
            queryLimit (preparePeriodicBillingQueryParameters this utils now forceOperation)
              = BATCH_PAGE_SIZE utils
          \<and> (\<exists>a b. startDateTime (queryFilter (preparePeriodicBillingQueryParameters this utils now forceOperation)) = Some a
                 \<and> endDateTime (queryFilter (preparePeriodicBillingQueryParameters this utils now forceOperation)) = Some b
                 \<and> a = \<lparr>year = fst (previousMonth (year now, month now)),
                         month = snd (previousMonth (year now, month now)),
                         day = 1, hour = 0, minute = 0, second = 0, millisecond = 0\<rparr>
                 \<and> b = \<lparr>year = year now, month = month now,
                         day = 1, hour = 0, minute = 0, second = 0, millisecond = 0\<rparr>
                 \<and> (\<forall>t. validMoment t \<longrightarrow>
                        (isSameOrAfter t a \<and> isBefore t b)
                        = ((year t, month t) = previousMonth (year now, month now)))))
       \<and> filterInvoiceStatus (queryFilter (preparePeriodicBillingQueryParameters this utils now forceOperation))
           = Some (if (case billing (settings this) of None \<Rightarrow> False
                       | Some b \<Rightarrow> periodicBillingAllowed b)
                   then [DRAFT, OPEN] else [OPEN])
       \<and> filterLiveMode (queryFilter (preparePeriodicBillingQueryParameters this utils now forceOperation))
           = None
       \<and> querySort (preparePeriodicBillingQueryParameters this utils now forceOperation)
           = [(''createdOn'', 1)]"
proof -
  have m: "1 \<le> month now" "month now \<le> 12"
    using assms by (simp_all add: validMoment_def)
  have w: "\<forall>t. validMoment t \<longrightarrow>
          (isSameOrAfter t (startOf_day (date_set 1 (date_set 0 now)))
             \<and> isBefore t (startOf_day (date_set 1 now)))
          = ((year t, month t) = previousMonth (year now, month now))"
    using previous_month_window [OF m] by (simp add: validMoment_def)
  show ?thesis
    unfolding preparePeriodicBillingQueryParameters_def Let_def
    using w
    unfolding startOf_day_first year_month_date_set_zero
    by (simp add: startOf_day_def endOf_day_def split: option.splits)
qed

theorem preparePeriodicBillingQueryParameters_window_witness:
  "validMoment example_now
   \<and> queryLimit (preparePeriodicBillingQueryParameters example_this example_utils example_now True) = 1
   \<and> startDateTime (queryFilter
        (preparePeriodicBillingQueryParameters example_this example_utils example_now True))
       = Some \<lparr>year = 2024, month = 3, day = 15, hour = 0, minute = 0, second = 0, millisecond = 0\<rparr>
   \<and> endDateTime (queryFilter
        (preparePeriodicBillingQueryParameters example_this example_utils example_now True))
       = Some \<lparr>year = 2024, month = 3, day = 15, hour = 23, minute = 59, second = 59,
               millisecond = 999\<rparr>
   \<and> queryLimit (preparePeriodicBillingQueryParameters example_this example_utils example_now False)
       = 100
   \<and> startDateTime (queryFilter
        (preparePeriodicBillingQueryParameters example_this example_utils example_now False))
       = Some \<lparr>year = 2024, month = 2, day = 1, hour = 0, minute = 0, second = 0, millisecond = 0\<rparr>
   \<and> endDateTime (queryFilter
        (preparePeriodicBillingQueryParameters example_this example_utils example_now False))
       = Some \<lparr>year = 2024, month = 3, day = 1, hour = 0, minute = 0, second = 0, millisecond = 0\<rparr>
   \<and> filterInvoiceStatus (queryFilter
        (preparePeriodicBillingQueryParameters example_this example_utils example_now False))
       = Some [OPEN]"
proof -
  have v: "validMoment example_now"
    by (simp add: validMoment_def example_now_def daysInMonth_def)
  have p: "previousMonth (year example_now, month example_now) = (2024, 2)"
    by (simp add: previousMonth_def example_now_def)
  show ?thesis
    using v p
      preparePeriodicBillingQueryParameters_window [OF v, where forceOperation = True
        and this = example_this and utils = example_utils]
      preparePeriodicBillingQueryParameters_window [OF v, where forceOperation = False
        and this = example_this and utils = example_utils]
    by (auto simp: example_now_def example_this_def example_utils_def)
qed

section \<open>The account synchronizer: properties\<close>

text \<open>
  Claim C1.  In forced mode the outcome of \<open>getUser\<close> decides.  \<open>getUser\<close> throws, or
  answers with a record, or with \<open>null\<close>, the empty record; a report that the provider
  holds no such customer is a throw like any other failure.  When \<open>getUser\<close> throws,
  the synchronizer calls \<open>repairUser\<close>, once, calls neither \<open>createUser\<close> nor
  \<open>updateUser\<close>, and answers what the repair answers.  When \<open>getUser\<close> succeeds, the next
  call is \<open>createUser\<close> for an empty record and \<open>updateUser\<close> for a record, and the other
  of the two is not called.
\<close>

theorem forced_synchronize_repairs:
  "(\<forall>e w1. getUser env usr (world s) = (Inl e, w1) \<longrightarrow>
       newEvents s (snd (priv_synchronizeUser env usr True s))
         = [EvGetUser usr (Inl e), EvRepairUser usr (fst (repairUser env usr w1))]
     \<and> length (filter isRepairUser (newEvents s (snd (priv_synchronizeUser env usr True s)))) = 1
     \<and> filter isCreateUser (newEvents s (snd (priv_synchronizeUser env usr True s))) = []
     \<and> filter isUpdateUser (newEvents s (snd (priv_synchronizeUser env usr True s))) = []
     \<and> fst (priv_synchronizeUser env usr True s) = fst (repairUser env usr w1))
 \<and> (\<forall>w1. getUser env usr (world s) = (Inr None, w1) \<longrightarrow>
       take 2 (newEvents s (snd (priv_synchronizeUser env usr True s)))
         = [EvGetUser usr (Inr None), EvCreateUser usr (fst (createUser env usr w1))]
     \<and> filter isUpdateUser (newEvents s (snd (priv_synchronizeUser env usr True s))) = [])
 \<and> (\<forall>b w1. getUser env usr (world s) = (Inr (Some b), w1) \<longrightarrow>
       take 2 (newEvents s (snd (priv_synchronizeUser env usr True s)))
         = [EvGetUser usr (Inr (Some b)), EvUpdateUser usr (fst (updateUser env usr w1))]
     \<and> filter isCreateUser (newEvents s (snd (priv_synchronizeUser env usr True s))) = [])"
  by (auto simp: priv_synchronizeUser_def perform_eq newEvents_def split: sum.splits prod.splits)

theorem forced_synchronize_repairs_witness:
  "getUser example_env example_user (world example_sys) = (Inl (ExternalError ''No such customer''), 0)
   \<and> newEvents example_sys (snd (priv_synchronizeUser example_env example_user True example_sys))
       = [EvGetUser example_user (Inl (ExternalError ''No such customer'')),
          EvRepairUser example_user
            (Inr (Some \<lparr>billingUserID = ''u1'',
                         billingData = Some \<lparr>customerID = Defined ''cus_2''\<rparr>\<rparr>))]
   \<and> getUser example_env_unlinked example_user (world example_sys) = (Inr None, 0)
   \<and> take 2 (newEvents example_sys
               (snd (priv_synchronizeUser example_env_unlinked example_user True example_sys)))
       = [EvGetUser example_user (Inr None),
          EvCreateUser example_user (Inl (ExternalError ''provider unavailable''))]"
proof -
  have g: "getUser example_env example_user (world example_sys)
             = (Inl (ExternalError ''No such customer''), 0)"
      "getUser example_env_unlinked example_user (world example_sys) = (Inr None, 0)"
    by (simp_all add: example_env_def example_env_unlinked_def example_sys_def)
  have r: "fst (repairUser example_env example_user 0)
             = Inr (Some \<lparr>billingUserID = ''u1'',
                           billingData = Some \<lparr>customerID = Defined ''cus_2''\<rparr>\<rparr>)"
      "fst (createUser example_env_unlinked example_user 0)
             = Inl (ExternalError ''provider unavailable'')"
    by (simp_all add: example_env_def example_env_unlinked_def example_user_def)
  show ?thesis
    using g r
      forced_synchronize_repairs [of example_env example_user example_sys]
      forced_synchronize_repairs [of example_env_unlinked example_user example_sys]
    by simp
qed

lemma logErrorWithStack_error:
  "e \<noteq> NullishRejection \<Longrightarrow> logErrorWithStack method message e s = (None, logError method message s)"
  by (simp add: logErrorWithStack_def)

lemma logErrorWithStack_nullish:
  "logErrorWithStack method message NullishRejection s
     = (Some (TypeError ''Cannot read properties of undefined (reading stack)''), s)"
  by (simp add: logErrorWithStack_def)

text \<open>
  Claim C8, as stated, has every provider error logged and answered with \<open>null\<close>.  In
  forced mode the error of \<open>getUser\<close> is caught by the repair branch instead: the
  customer is repaired, the repaired link is returned, and no error is logged.
\<close>

theorem forceSynchronizeUser_repair_is_silent:
  "fst (getUser example_env example_user (world example_sys))
     = Inl (ExternalError ''No such customer'')
   \<and> fst (forceSynchronizeUser example_env example_user example_sys)
       = Inr (Some \<lparr>billingUserID = ''u1'', billingData = Some \<lparr>customerID = Defined ''cus_2''\<rparr>\<rparr>)
   \<and> filter isErrorLog
         (newEvents example_sys (snd (forceSynchronizeUser example_env example_user example_sys)))
       = []"
  by (simp add: forceSynchronizeUser_def priv_synchronizeUser_def perform_eq log_defs newEvents_def
        billingUserCustomerID_def userCustomerID_def showNullable_def
        example_env_def example_sys_def example_user_def)

text \<open>
  The handlers of lines 51 to 59 and 83 to 91 read \<open>error.stack\<close>.  A provider that
  rejects with \<open>undefined\<close> makes that read throw, and the \<open>TypeError\<close> leaves
  \<open>synchronizeUser\<close> with nothing logged.
\<close>

lemma synchronizeUser_nullish_rejection:
  "synchronizeUser
     (example_env\<lparr>isUserSynchronized := (\<lambda>u w. (Inl NullishRejection, w))\<rparr>) example_user example_sys
   = (Inl (TypeError ''Cannot read properties of undefined (reading stack)''),
      \<lparr>world = 0, trace = [EvIsUserSynchronized example_user (Inl NullishRejection)]\<rparr>)"
  by (simp add: synchronizeUser_def priv_synchronizeUser_def perform_eq logErrorWithStack_def
        example_env_def example_sys_def)

text \<open>The comparison of line 68 tells \<open>null\<close> from \<open>undefined\<close>: the warning is logged.\<close>

lemma forceSynchronizeUser_null_customerID:
  "newEvents example_sys
     (snd (forceSynchronizeUser (example_env\<lparr>repairUser := (\<lambda>u w. (Inr None, w))\<rparr>)
             (example_user\<lparr>userBillingData := Some \<lparr>customerID = Null\<rparr>\<rparr>) example_sys))
   = [EvGetUser (example_user\<lparr>userBillingData := Some \<lparr>customerID = Null\<rparr>\<rparr>)
        (Inl (ExternalError ''No such customer'')),
      EvRepairUser (example_user\<lparr>userBillingData := Some \<lparr>customerID = Null\<rparr>\<rparr>) (Inr None),
      EvLog LogWarning ''forceSynchronizeUser''
        ''CustomerID has been repaired - old value null - undefined'',
      EvLog LogInfo ''forceSynchronizeUser''
        ''Successfully forced the synchronization of user: u1 - u1@example.org'']"
  by (simp add: forceSynchronizeUser_def priv_synchronizeUser_def perform_eq log_defs newEvents_def
        billingUserCustomerID_def userCustomerID_def showNullable_def
        example_env_def example_sys_def example_user_def)

text \<open>
  Claim C8, amended.  As long as the synchronization that they wrap does not fail with a
  rejection that carries \<open>null\<close> or \<open>undefined\<close>, which is so when no operation of the
  provider rejects with one, \<open>synchronizeUser\<close> and \<open>forceSynchronizeUser\<close> do not throw.
  When the synchronization fails with an error, they answer \<open>null\<close> and the last thing
  they do is to log the failure.  In normal mode the synchronization fails with the
  error of \<open>isUserSynchronized\<close>, or of the \<open>createUser\<close> or \<open>updateUser\<close> that follows; in
  forced mode it fails when the repair fails.  In forced mode an error of \<open>getUser\<close> that
  the repair answers with a result is not logged as an error, and the result of the
  repair is returned.
\<close>

theorem synchronize_never_throws:
  "(fst (priv_synchronizeUser env usr False s) \<noteq> Inl NullishRejection \<longrightarrow>
      (\<forall>e. fst (synchronizeUser env usr s) \<noteq> Inl e))
 \<and> (fst (priv_synchronizeUser env usr True s) \<noteq> Inl NullishRejection \<longrightarrow>
      (\<forall>e. fst (forceSynchronizeUser env usr s) \<noteq> Inl e))
 \<and> ((\<forall>u w. fst (isUserSynchronized env u w) \<noteq> Inl NullishRejection
           \<and> fst (createUser env u w) \<noteq> Inl NullishRejection
           \<and> fst (updateUser env u w) \<noteq> Inl NullishRejection
           \<and> fst (repairUser env u w) \<noteq> Inl NullishRejection) \<longrightarrow>
      fst (priv_synchronizeUser env usr False s) \<noteq> Inl NullishRejection
    \<and> fst (priv_synchronizeUser env usr True s) \<noteq> Inl NullishRejection)
 \<and> (\<forall>e s1. priv_synchronizeUser env usr False s = (Inl e, s1) \<and> e \<noteq> NullishRejection \<longrightarrow>
       synchronizeUser env usr s
         = (Inr None,
            emit (EvLog LogError ''synchronizeUser''
                   (''Failed to synchronize user: '' @ userId usr @ '' - '' @ email usr)) s1))
 \<and> (\<forall>e s1. priv_synchronizeUser env usr True s = (Inl e, s1) \<and> e \<noteq> NullishRejection \<longrightarrow>
       forceSynchronizeUser env usr s
         = (Inr None,
            emit (EvLog LogError ''forceSynchronizeUser''
                   (''Failed to force the synchronization of user: ''
                      @ userId usr @ '' - '' @ email usr)) s1))
 \<and> (\<forall>e. fst (isUserSynchronized env usr (world s)) = Inl e \<longrightarrow>
       fst (priv_synchronizeUser env usr False s) = Inl e)
 \<and> (\<forall>e w1. isUserSynchronized env usr (world s) = (Inr False, w1)
        \<and> fst (createUser env usr w1) = Inl e \<longrightarrow>
       fst (priv_synchronizeUser env usr False s) = Inl e)
 \<and> (\<forall>e w1. isUserSynchronized env usr (world s) = (Inr True, w1)
        \<and> fst (updateUser env usr w1) = Inl e \<longrightarrow>
       fst (priv_synchronizeUser env usr False s) = Inl e)
 \<and> (\<forall>e e' w1. getUser env usr (world s) = (Inl e, w1)
        \<and> fst (repairUser env usr w1) = Inl e' \<longrightarrow>
       fst (priv_synchronizeUser env usr True s) = Inl e')
 \<and> (\<forall>e r w1. getUser env usr (world s) = (Inl e, w1)
        \<and> fst (repairUser env usr w1) = Inr r \<longrightarrow>
       fst (forceSynchronizeUser env usr s) = Inr r
     \<and> filter isErrorLog (newEvents s (snd (forceSynchronizeUser env usr s))) = [])"
proof -
  have a: "fst (priv_synchronizeUser env usr False s) \<noteq> Inl NullishRejection \<longrightarrow>
      (\<forall>e. fst (synchronizeUser env usr s) \<noteq> Inl e)"
    by (auto simp: synchronizeUser_def logErrorWithStack_def split: sum.splits prod.splits)
  have b: "fst (priv_synchronizeUser env usr True s) \<noteq> Inl NullishRejection \<longrightarrow>
      (\<forall>e. fst (forceSynchronizeUser env usr s) \<noteq> Inl e)"
    by (auto simp: forceSynchronizeUser_def logErrorWithStack_def split: sum.splits prod.splits)
  have c: "(\<forall>u w. fst (isUserSynchronized env u w) \<noteq> Inl NullishRejection
           \<and> fst (createUser env u w) \<noteq> Inl NullishRejection
           \<and> fst (updateUser env u w) \<noteq> Inl NullishRejection
           \<and> fst (repairUser env u w) \<noteq> Inl NullishRejection) \<longrightarrow>
      fst (priv_synchronizeUser env usr False s) \<noteq> Inl NullishRejection
    \<and> fst (priv_synchronizeUser env usr True s) \<noteq> Inl NullishRejection"
    by (auto simp: priv_synchronizeUser_def perform_eq split: sum.splits prod.splits)
  have d: "(\<forall>e s1. priv_synchronizeUser env usr False s = (Inl e, s1) \<and> e \<noteq> NullishRejection \<longrightarrow>
       synchronizeUser env usr s
         = (Inr None,
            emit (EvLog LogError ''synchronizeUser''
                   (''Failed to synchronize user: '' @ userId usr @ '' - '' @ email usr)) s1))
   \<and> (\<forall>e s1. priv_synchronizeUser env usr True s = (Inl e, s1) \<and> e \<noteq> NullishRejection \<longrightarrow>
       forceSynchronizeUser env usr s
         = (Inr None,
            emit (EvLog LogError ''forceSynchronizeUser''
                   (''Failed to force the synchronization of user: ''
                      @ userId usr @ '' - '' @ email usr)) s1))"
    by (simp add: synchronizeUser_def forceSynchronizeUser_def logErrorWithStack_def logError_def)
  have e: "(\<forall>e. fst (isUserSynchronized env usr (world s)) = Inl e \<longrightarrow>
       fst (priv_synchronizeUser env usr False s) = Inl e)
   \<and> (\<forall>e w1. isUserSynchronized env usr (world s) = (Inr False, w1)
        \<and> fst (createUser env usr w1) = Inl e \<longrightarrow>
       fst (priv_synchronizeUser env usr False s) = Inl e)
   \<and> (\<forall>e w1. isUserSynchronized env usr (world s) = (Inr True, w1)
        \<and> fst (updateUser env usr w1) = Inl e \<longrightarrow>
       fst (priv_synchronizeUser env usr False s) = Inl e)
   \<and> (\<forall>e e' w1. getUser env usr (world s) = (Inl e, w1)
        \<and> fst (repairUser env usr w1) = Inl e' \<longrightarrow>
       fst (priv_synchronizeUser env usr True s) = Inl e')"
    by (auto simp: priv_synchronizeUser_def perform_eq split: sum.splits prod.splits)
  have f: "\<forall>e r w1. getUser env usr (world s) = (Inl e, w1)
        \<and> fst (repairUser env usr w1) = Inr r \<longrightarrow>
       fst (forceSynchronizeUser env usr s) = Inr r
     \<and> filter isErrorLog (newEvents s (snd (forceSynchronizeUser env usr s))) = []"
    by (auto simp: forceSynchronizeUser_def priv_synchronizeUser_def perform_eq log_defs
                   newEvents_def
             split: sum.splits prod.splits)
  show ?thesis
    using a b c d e f by blast
qed

theorem synchronize_never_throws_witness:
  "fst (isUserSynchronized example_env_provider_down example_user (world example_sys))
     = Inl (ExternalError ''provider unavailable'')
   \<and> fst (synchronizeUser example_env_provider_down example_user example_sys) = Inr None
   \<and> last (trace (snd (synchronizeUser example_env_provider_down example_user example_sys)))
       = EvLog LogError ''synchronizeUser'' ''Failed to synchronize user: u1 - u1@example.org''
   \<and> fst (forceSynchronizeUser example_env_provider_down example_user example_sys) = Inr None
   \<and> last (trace (snd (forceSynchronizeUser example_env_provider_down example_user example_sys)))
       = EvLog LogError ''forceSynchronizeUser''
           ''Failed to force the synchronization of user: u1 - u1@example.org''"
proof -
  have n: "priv_synchronizeUser example_env_provider_down example_user False example_sys
             = (Inl (ExternalError ''provider unavailable''),
                \<lparr>world = 0,
                 trace = [EvIsUserSynchronized example_user
                            (Inl (ExternalError ''provider unavailable''))]\<rparr>)"
    by (simp add: priv_synchronizeUser_def perform_eq example_env_provider_down_def
          example_env_def example_sys_def)
  have f: "priv_synchronizeUser example_env_provider_down example_user True example_sys
             = (Inl (ExternalError ''provider unavailable''),
                \<lparr>world = 0,
                 trace = [EvGetUser example_user (Inl (ExternalError ''No such customer'')),
                          EvRepairUser example_user
                            (Inl (ExternalError ''provider unavailable''))]\<rparr>)"
    by (simp add: priv_synchronizeUser_def perform_eq example_env_provider_down_def
          example_env_def example_sys_def)
  have i: "fst (isUserSynchronized example_env_provider_down example_user (world example_sys))
             = Inl (ExternalError ''provider unavailable'')"
    by (simp add: example_env_provider_down_def example_env_def)
  show ?thesis
    using n f i
      synchronize_never_throws [of example_env_provider_down example_user example_sys]
    by (simp add: emit_def example_user_def)
qed

section \<open>The settlement batch runner: properties\<close>

lemma pages_append: "pages (xs @ ys) = pages xs + pages ys"
  by (simp add: pages_def)

lemma compensations_append:
  "compensations this (xs @ ys) = compensations this xs + compensations this ys"
  by (simp add: compensations_def)


text \<open>What every turn of a \<open>for ... of\<close> loop keeps, the loop keeps.\<close>

lemma forOf_rel:
  assumes refl: "\<And>a. R a a"
    and trans: "\<And>a b c. R a b \<Longrightarrow> R b c \<Longrightarrow> R a c"
    and step: "\<And>x a. R a (snd (body x a))"
  shows "R s (snd (forOf body xs s))"
proof (induction xs arbitrary: s)
  case Nil
  show ?case by (simp add: refl)
next
  case (Cons x xs)
  obtain r s1 where b: "body x s = (r, s1)"
    by (cases "body x s")
  have s1: "R s s1"
    using step [of s x] b by simp
  show ?case
  proof (cases r)
    case None
    then show ?thesis
      using b trans [OF s1 Cons.IH [of s1]] by simp
  next
    case (Some e)
    then show ?thesis
      using b s1 by simp
  qed
qed

lemma item_balance:
  "balance this pageSize (snd (chargeInvoices_item env this forceOperation invoice st))
     = balance this pageSize st"
  by (auto simp: balance_def chargeInvoices_item_def logErrorWithStack_def perform_eq log_defs
                 compensations_def pages_def
           split: sum.splits)

lemma page_balance:
  "balance this pageSize (snd (forOf (chargeInvoices_item env this forceOperation) invoices st))
     = balance this pageSize st"
  using forOf_rel [where R = "\<lambda>a b. balance this pageSize b = balance this pageSize a"
          and body = "chargeInvoices_item env this forceOperation" and xs = invoices and s = st]
  by (simp add: item_balance)

lemma item_trace_prefix:
  "\<exists>evs. trace (sys (snd (chargeInvoices_item env this forceOperation invoice st)))
           = trace (sys st) @ evs"
  by (auto simp: chargeInvoices_item_def logErrorWithStack_def perform_eq log_defs
           split: sum.splits)

lemma page_trace_prefix:
  "\<exists>evs. trace (sys (snd (forOf (chargeInvoices_item env this forceOperation) invoices st)))
           = trace (sys st) @ evs"
proof -
  have "\<And>a b c. \<exists>evs. trace (sys b) = trace (sys a) @ evs \<Longrightarrow>
                  \<exists>evs. trace (sys c) = trace (sys b) @ evs \<Longrightarrow>
                  \<exists>evs. trace (sys c) = trace (sys (a :: 'a ChargeRun)) @ evs"
    by auto
  then show ?thesis
    using forOf_rel [where R = "\<lambda>a b. \<exists>evs. trace (sys b) = trace (sys a) @ evs"
            and body = "chargeInvoices_item env this forceOperation" and xs = invoices and s = st]
      item_trace_prefix [of env this forceOperation]
    by blast
qed



text \<open>One turn of the \<open>while\<close> loop, by the answer of the store.\<close>

lemma loop_unfold:
  "chargeInvoices_loop (Suc fuel) env this forceOperation q st =
     (case fst (getInvoices env (queryFilter q)
                  \<lparr>dbLimit = queryLimit q, dbSkip = skip st, dbSort = querySort q\<rparr> (world (sys st))) of
        Inl e \<Rightarrow>
          (Some (Inl e),
           st\<lparr>sys := snd (perform
                 (getInvoices env (queryFilter q)
                    \<lparr>dbLimit = queryLimit q, dbSkip = skip st, dbSort = querySort q\<rparr>)
                 (EvGetInvoices (queryFilter q)
                    \<lparr>dbLimit = queryLimit q, dbSkip = skip st, dbSort = querySort q\<rparr>) (sys st))\<rparr>)
      | Inr invoices \<Rightarrow>
          if invoices = [] then
            (Some (Inr (actionsDone st)),
             st\<lparr>sys := snd (perform
                   (getInvoices env (queryFilter q)
                      \<lparr>dbLimit = queryLimit q, dbSkip = skip st, dbSort = querySort q\<rparr>)
                   (EvGetInvoices (queryFilter q)
                      \<lparr>dbLimit = queryLimit q, dbSkip = skip st, dbSort = querySort q\<rparr>) (sys st))\<rparr>)
          else
            (case forOf (chargeInvoices_item env this forceOperation) invoices
                    (st\<lparr>skip := skip st + int (queryLimit q),
                        sys := snd (perform
                          (getInvoices env (queryFilter q)
                             \<lparr>dbLimit = queryLimit q, dbSkip = skip st, dbSort = querySort q\<rparr>)
                          (EvGetInvoices (queryFilter q)
                             \<lparr>dbLimit = queryLimit q, dbSkip = skip st, dbSort = querySort q\<rparr>)
                          (sys st))\<rparr>) of
               (Some t, st1) \<Rightarrow> (Some (Inl t), st1)
             | (None, st1) \<Rightarrow> chargeInvoices_loop fuel env this forceOperation q st1))"
  by (simp add: perform_eq split: sum.splits)

lemma loop_balance:
  "balance this (queryLimit q) (snd (chargeInvoices_loop fuel env this forceOperation q st))
     = balance this (queryLimit q) st"
proof (induction fuel arbitrary: st)
  case 0
  then show ?case by simp
next
  case (Suc fuel)
  let ?p = "\<lparr>dbLimit = queryLimit q, dbSkip = skip st, dbSort = querySort q\<rparr>"
  let ?g = "getInvoices env (queryFilter q) ?p (world (sys st))"
  let ?s1 = "\<lparr>world = snd ?g, trace = trace (sys st) @ [EvGetInvoices (queryFilter q) ?p (fst ?g)]\<rparr>"
  show ?case
  proof (cases "fst ?g")
    case (Inl e)
    then show ?thesis
      by (simp add: perform_eq balance_def compensations_def pages_def)
  next
    case (Inr invoices)
    show ?thesis
    proof (cases invoices)
      case Nil
      with Inr show ?thesis
        by (simp add: perform_eq balance_def compensations_def pages_def)
    next
      case (Cons x xs)
      let ?st1 = "st\<lparr>skip := skip st + int (queryLimit q), sys := ?s1\<rparr>"
      let ?page = "forOf (chargeInvoices_item env this forceOperation) invoices ?st1"
      have b1: "balance this (queryLimit q) ?st1 = balance this (queryLimit q) st"
        using Inr Cons by (simp add: balance_def compensations_def pages_def algebra_simps)
      have b2: "balance this (queryLimit q) (snd ?page) = balance this (queryLimit q) ?st1"
        by (rule page_balance)
      show ?thesis
      proof (cases "fst ?page")
        case None
        then have "chargeInvoices_loop (Suc fuel) env this forceOperation q st
                     = chargeInvoices_loop fuel env this forceOperation q (snd ?page)"
          using Inr Cons by (cases ?page) (simp add: perform_eq)
        then show ?thesis
          using b1 b2 Suc.IH [of "snd ?page"] by simp
      next
        case (Some t)
        then have "chargeInvoices_loop (Suc fuel) env this forceOperation q st
                     = (Some (Inl t), snd ?page)"
          using Inr Cons by (cases ?page) (simp add: perform_eq)
        then show ?thesis
          using b1 b2 by simp
      qed
    qed
  qed
qed

lemma loop_trace_prefix:
  "\<exists>evs. trace (sys (snd (chargeInvoices_loop fuel env this forceOperation q st)))
           = trace (sys st) @ evs"
proof (induction fuel arbitrary: st)
  case 0
  then show ?case by simp
next
  case (Suc fuel)
  let ?p = "\<lparr>dbLimit = queryLimit q, dbSkip = skip st, dbSort = querySort q\<rparr>"
  let ?g = "getInvoices env (queryFilter q) ?p (world (sys st))"
  let ?s1 = "\<lparr>world = snd ?g, trace = trace (sys st) @ [EvGetInvoices (queryFilter q) ?p (fst ?g)]\<rparr>"
  show ?case
  proof (cases "fst ?g")
    case (Inl e)
    then show ?thesis by (simp add: perform_eq)
  next
    case (Inr invoices)
    show ?thesis
    proof (cases "invoices = []")
      case True
      with Inr show ?thesis by (simp add: perform_eq)
    next
      case False
      let ?st1 = "st\<lparr>skip := skip st + int (queryLimit q), sys := ?s1\<rparr>"
      let ?page = "forOf (chargeInvoices_item env this forceOperation) invoices ?st1"
      obtain e1 where e1: "trace (sys (snd ?page)) = trace ?s1 @ e1"
        using page_trace_prefix [of env this forceOperation invoices ?st1] by auto
      show ?thesis
      proof (cases "fst ?page")
        case None
        obtain e2 where e2:
          "trace (sys (snd (chargeInvoices_loop fuel env this forceOperation q (snd ?page))))
             = trace (sys (snd ?page)) @ e2"
          using Suc.IH by blast
        have "chargeInvoices_loop (Suc fuel) env this forceOperation q st
                = chargeInvoices_loop fuel env this forceOperation q (snd ?page)"
          using None Inr False by (cases ?page) (simp add: perform_eq)
        then show ?thesis using e1 e2 by simp
      next
        case (Some t)
        then have "chargeInvoices_loop (Suc fuel) env this forceOperation q st
                     = (Some (Inl t), snd ?page)"
          using Inr False by (cases ?page) (simp add: perform_eq)
        then show ?thesis using e1 by simp
      qed
    qed
  qed
qed



lemma queryLimit_prepare:
  "queryLimit (preparePeriodicBillingQueryParameters this utils now forceOperation)
     = (if forceOperation then 1 else BATCH_PAGE_SIZE utils)"
  by (simp add: preparePeriodicBillingQueryParameters_def Let_def)


lemma run_skip:
  "skip (snd (chargeInvoices fuel env this utils forceOperation s))
     = int (if forceOperation then 1 else BATCH_PAGE_SIZE utils)
         * pages (newEvents s (sys (snd (chargeInvoices fuel env this utils forceOperation s))))
       - compensations this
           (newEvents s (sys (snd (chargeInvoices fuel env this utils forceOperation s))))"
proof (cases "fst (checkConnection env (world s))")
  case (Inl e)
  then show ?thesis
    by (simp add: chargeInvoices_def perform_eq newEvents_def pages_def compensations_def)
next
  case (Inr ok)
  let ?s1 = "snd (perform (checkConnection env) EvCheckConnection s)"
  let ?q = "preparePeriodicBillingQueryParameters this utils (momentNow env (world ?s1)) forceOperation"
  let ?st0 = "\<lparr>skip = 0, actionsDone = \<lparr>inSuccess = 0, inError = 0\<rparr>, sys = ?s1\<rparr>"
  let ?R = "chargeInvoices_loop fuel env this forceOperation ?q ?st0"
  have run: "chargeInvoices fuel env this utils forceOperation s = ?R"
    using Inr by (simp add: chargeInvoices_def perform_eq)
  obtain evs where evs: "trace (sys (snd ?R)) = trace (sys ?st0) @ evs"
    using loop_trace_prefix by blast
  have t0: "trace (sys ?st0) = trace s @ [EvCheckConnection (Inr ok)]"
    using Inr by (simp add: perform_eq)
  have new: "newEvents s (sys (snd ?R)) = EvCheckConnection (Inr ok) # evs"
    using evs t0 by (simp add: newEvents_def)
  have "balance this (queryLimit ?q) (snd ?R) = balance this (queryLimit ?q) ?st0"
    by (rule loop_balance)
  then have "skip (snd ?R) = int (queryLimit ?q) * pages evs - compensations this evs"
    using evs t0
    by (simp add: balance_def pages_append compensations_append algebra_simps
          pages_def [of "[EvCheckConnection (Inr ok)]"]
          compensations_def [of this "[EvCheckConnection (Inr ok)]"])
  moreover have "pages (EvCheckConnection (Inr ok) # evs) = pages evs"
      "compensations this (EvCheckConnection (Inr ok) # evs) = compensations this evs"
    by (simp_all add: pages_def compensations_def)
  ultimately show ?thesis
    unfolding run new by (simp only: queryLimit_prepare)
qed

text \<open>
  Claim C2.  Processing one invoice lowers \<open>skip\<close> by one when the invoice was in scope,
  was not skipped as too new, was settled by the provider, and the invoice that the
  settlement returned is out of scope; in every other case \<open>skip\<close> stays as it is.  Over
  a whole run, whatever the provider and the store do and however far the run has got,
  \<open>skip\<close> is the page size times the number of pages read, less the number of
  settlements that returned an invoice out of scope: one compensation for each.
\<close>

theorem chargeInvoices_skip_compensation:
  "skip (snd (chargeInvoices_item env this forceOperation invoice st))
     = (if \<not> isInvoiceOutOfPeriodicOperationScope this invoice
           \<and> (forceOperation \<or> \<not> isSame_day (createdOn invoice) (momentNow env (world (sys st))))
           \<and> (case fst (chargeInvoice env invoice (world (sys st))) of
                 Inl e \<Rightarrow> False
               | Inr newInvoice \<Rightarrow> isInvoiceOutOfPeriodicOperationScope this newInvoice)
        then skip st - 1 else skip st)
   \<and> skip (snd (chargeInvoices fuel env this utils forceOperation s))
       = int (if forceOperation then 1 else BATCH_PAGE_SIZE utils)
           * pages (newEvents s (sys (snd (chargeInvoices fuel env this utils forceOperation s))))
         - compensations this
             (newEvents s (sys (snd (chargeInvoices fuel env this utils forceOperation s))))"
proof -
  have "skip (snd (chargeInvoices_item env this forceOperation invoice st))
     = (if \<not> isInvoiceOutOfPeriodicOperationScope this invoice
           \<and> (forceOperation \<or> \<not> isSame_day (createdOn invoice) (momentNow env (world (sys st))))
           \<and> (case fst (chargeInvoice env invoice (world (sys st))) of
                 Inl e \<Rightarrow> False
               | Inr newInvoice \<Rightarrow> isInvoiceOutOfPeriodicOperationScope this newInvoice)
        then skip st - 1 else skip st)"
    by (auto simp: chargeInvoices_item_def logErrorWithStack_def perform_eq split: sum.splits)
  then show ?thesis
    using run_skip [of fuel env this utils forceOperation s] by simp
qed

lemmas run_defs =
  chargeInvoices_def chargeInvoices_item_def logErrorWithStack_def
  preparePeriodicBillingQueryParameters_def
  isInvoiceOutOfPeriodicOperationScope_def isSame_day_def perform_eq log_defs

theorem chargeInvoices_skip_compensation_witness:
  "fst (chargeInvoices (Suc (Suc 0)) example_env example_this example_utils False example_sys)
     = Some (Inr \<lparr>inSuccess = 1, inError = 1\<rparr>)
   \<and> pages (newEvents example_sys
        (sys (snd (chargeInvoices (Suc (Suc 0)) example_env example_this example_utils False
                     example_sys)))) = 1
   \<and> compensations example_this (newEvents example_sys
        (sys (snd (chargeInvoices (Suc (Suc 0)) example_env example_this example_utils False
                     example_sys)))) = 1
   \<and> skip (snd (chargeInvoices (Suc (Suc 0)) example_env example_this example_utils False
                  example_sys)) = 99"
  using chargeInvoices_skip_compensation [of example_env example_this False example_invoice
          "\<lparr>skip = 0, actionsDone = \<lparr>inSuccess = 0, inError = 0\<rparr>, sys = example_sys\<rparr>"
          "Suc (Suc 0)" example_utils example_sys]
  by (simp add: run_defs example_defs newEvents_def pages_def compensations_def)


text \<open>
  The handler of lines 144 to 154 counts the error and then reads \<open>error.stack\<close>.  A
  provider that rejects the settlement with \<open>undefined\<close> makes that read throw: the run
  ends at the first invoice with a \<open>TypeError\<close>, one error counted and nothing logged.
\<close>

lemma chargeInvoices_nullish_rejection:
  "fst (chargeInvoices (Suc (Suc 0))
          (example_env\<lparr>chargeInvoice := (\<lambda>i w. (Inl NullishRejection, w))\<rparr>)
          example_this example_utils False example_sys)
     = Some (Inl (TypeError ''Cannot read properties of undefined (reading stack)''))
   \<and> actionsDone (snd (chargeInvoices (Suc (Suc 0))
          (example_env\<lparr>chargeInvoice := (\<lambda>i w. (Inl NullishRejection, w))\<rparr>)
          example_this example_utils False example_sys))
       = \<lparr>inSuccess = 0, inError = 1\<rparr>
   \<and> filter isErrorLog (trace (sys (snd (chargeInvoices (Suc (Suc 0))
          (example_env\<lparr>chargeInvoice := (\<lambda>i w. (Inl NullishRejection, w))\<rparr>)
          example_this example_utils False example_sys)))) = []"
  by (simp add: run_defs example_defs)



section \<open>The purge of test data: properties\<close>

lemma forOf_append:
  "forOf body (xs @ ys) s =
     (case forOf body xs s of
        (Some e, s1) \<Rightarrow> (Some e, s1)
      | (None, s1) \<Rightarrow> forOf body ys s1)"
  by (induction xs arbitrary: s) (auto split: prod.splits option.splits)

text \<open>
  Claim C9.  An invoice flagged live is refused before anything is touched: the fatal
  error is raised with the world and the trace as they were, so no transaction was read
  or saved and no invoice deleted.  The body of the loop of the sweep catches the error
  and logs it, and nothing leaves the body.  So whenever the store answers the query of
  \<open>clearAllInvoiceTestData\<close> with a batch that holds a live invoice, and the sweep gets as
  far as that invoice, the sweep logs the refusal and goes on with the invoices that
  follow, from the state it had reached: what it returns is what the loop over the rest
  of the batch returns.
\<close>

theorem live_invoice_refused:
  assumes "liveMode invoice"
  shows "clearInvoiceTestData env invoice s
           = (Inl (BackendError
                 ''Unexpected situation - Attempt to clear an invoice with live Billing data''), s)
       \<and> clearAllInvoiceTestData_item env invoice s
           = (None,
              s\<lparr>trace := trace s @
                   [EvLog LogError ''clearAllInvoiceTestData''
                      (''Failed to clear invoice test data - Invoice: '' @ invoiceId invoice)]\<rparr>)
       \<and> (\<forall>before rest w1 s2.
             getInvoices env
               \<lparr>startDateTime = None, endDateTime = None, filterInvoiceStatus = None,
                filterLiveMode = Some False\<rparr> (DB_PARAMS_MAX_LIMIT utils) (world s)
               = (Inr (before @ invoice # rest), w1)
             \<and> forOf (clearAllInvoiceTestData_item env) before
                 \<lparr>world = w1,
                  trace = trace s @
                    [EvGetInvoices
                       \<lparr>startDateTime = None, endDateTime = None, filterInvoiceStatus = None,
                        filterLiveMode = Some False\<rparr> (DB_PARAMS_MAX_LIMIT utils)
                       (Inr (before @ invoice # rest))]\<rparr>
                 = (None, s2) \<longrightarrow>
             clearAllInvoiceTestData env utils s
               = (case forOf (clearAllInvoiceTestData_item env) rest
                         (s2\<lparr>trace := trace s2 @
                               [EvLog LogError ''clearAllInvoiceTestData''
                                  (''Failed to clear invoice test data - Invoice: ''
                                     @ invoiceId invoice)]\<rparr>) of
                    (Some t, s3) \<Rightarrow> (Inl t, s3)
                  | (None, s3) \<Rightarrow> (Inr (), s3)))"
proof -
  have refused: "clearInvoiceTestData env invoice s'
           = (Inl (BackendError
                 ''Unexpected situation - Attempt to clear an invoice with live Billing data''), s')"
    for s' :: "'a Sys"
    using assms by (simp add: clearInvoiceTestData_def)
  have item: "clearAllInvoiceTestData_item env invoice s'
           = (None,
              s'\<lparr>trace := trace s' @
                   [EvLog LogError ''clearAllInvoiceTestData''
                      (''Failed to clear invoice test data - Invoice: '' @ invoiceId invoice)]\<rparr>)"
    for s' :: "'a Sys"
    by (simp add: clearAllInvoiceTestData_item_def refused logErrorWithStack_def log_defs)
  have sweep: "clearAllInvoiceTestData env utils s
               = (case forOf (clearAllInvoiceTestData_item env) rest
                         (s2\<lparr>trace := trace s2 @
                               [EvLog LogError ''clearAllInvoiceTestData''
                                  (''Failed to clear invoice test data - Invoice: ''
                                     @ invoiceId invoice)]\<rparr>) of
                    (Some t, s3) \<Rightarrow> (Inl t, s3)
                  | (None, s3) \<Rightarrow> (Inr (), s3))"
    if g: "getInvoices env
               \<lparr>startDateTime = None, endDateTime = None, filterInvoiceStatus = None,
                filterLiveMode = Some False\<rparr> (DB_PARAMS_MAX_LIMIT utils) (world s)
               = (Inr (before @ invoice # rest), w1)"
      and b: "forOf (clearAllInvoiceTestData_item env) before
                 \<lparr>world = w1,
                  trace = trace s @
                    [EvGetInvoices
                       \<lparr>startDateTime = None, endDateTime = None, filterInvoiceStatus = None,
                        filterLiveMode = Some False\<rparr> (DB_PARAMS_MAX_LIMIT utils)
                       (Inr (before @ invoice # rest))]\<rparr>
                 = (None, s2)"
    for before rest w1 s2
    by (simp add: clearAllInvoiceTestData_def perform_eq g forOf_append b item)
  show ?thesis
    using refused item sweep by blast
qed

theorem live_invoice_refused_witness:
  "liveMode (example_invoice\<lparr>liveMode := True\<rparr>)
   \<and> clearInvoiceTestData example_env_live_invoice (example_invoice\<lparr>liveMode := True\<rparr>)
        example_sys
       = (Inl (BackendError
                ''Unexpected situation - Attempt to clear an invoice with live Billing data''),
          example_sys)
   \<and> fst (clearAllInvoiceTestData example_env_live_invoice example_utils example_sys) = Inr ()
   \<and> newEvents example_sys
        (snd (clearAllInvoiceTestData example_env_live_invoice example_utils example_sys))
       = [EvGetInvoices
            \<lparr>startDateTime = None, endDateTime = None, filterInvoiceStatus = None,
             filterLiveMode = Some False\<rparr> (DB_PARAMS_MAX_LIMIT example_utils)
            (Inr [example_invoice\<lparr>liveMode := True\<rparr>,
                  example_invoice\<lparr>invoiceId := ''in_2'', sessions := Some []\<rparr>]),
          EvLog LogError ''clearAllInvoiceTestData''
            ''Failed to clear invoice test data - Invoice: in_1'',
          EvDeleteInvoice ''in_2'' (Inr ()),
          EvLog LogInfo ''clearAllInvoiceTestData''
            ''Successfully clear test data for invoice in_2'']"
proof -
  have l: "liveMode (example_invoice\<lparr>liveMode := True\<rparr>)"
    by simp
  have r: "forOf (clearAllInvoiceTestData_item example_env_live_invoice)
             [example_invoice\<lparr>invoiceId := ''in_2'', sessions := Some []\<rparr>] s
           = (None,
              s\<lparr>trace := trace s @
                   [EvDeleteInvoice ''in_2'' (Inr ()),
                    EvLog LogInfo ''clearAllInvoiceTestData''
                      ''Successfully clear test data for invoice in_2'']\<rparr>)"
    for s :: "nat Sys"
    by (simp add: clearAllInvoiceTestData_item_def clearInvoiceTestData_def
          clearTransactionsTestData_def promiseAll_def perform_eq log_defs
          example_env_live_invoice_def example_env_def example_invoice_def)
  have g: "getInvoices example_env_live_invoice
             \<lparr>startDateTime = None, endDateTime = None, filterInvoiceStatus = None,
              filterLiveMode = Some False\<rparr> (DB_PARAMS_MAX_LIMIT example_utils) (world example_sys)
           = (Inr ([] @ example_invoice\<lparr>liveMode := True\<rparr>
                     # [example_invoice\<lparr>invoiceId := ''in_2'', sessions := Some []\<rparr>]),
              Suc 0)"
    by (simp add: example_env_live_invoice_def example_sys_def)
  note t = live_invoice_refused [OF l, where env = example_env_live_invoice and s = example_sys
      and utils = example_utils]
  have sweep: "clearAllInvoiceTestData example_env_live_invoice example_utils example_sys
           = (case forOf (clearAllInvoiceTestData_item example_env_live_invoice)
                     [example_invoice\<lparr>invoiceId := ''in_2'', sessions := Some []\<rparr>]
                     (\<lparr>world = Suc 0,
                       trace = trace example_sys @
                         [EvGetInvoices
                            \<lparr>startDateTime = None, endDateTime = None, filterInvoiceStatus = None,
                             filterLiveMode = Some False\<rparr> (DB_PARAMS_MAX_LIMIT example_utils)
                            (Inr ([] @ example_invoice\<lparr>liveMode := True\<rparr>
                                    # [example_invoice\<lparr>invoiceId := ''in_2'',
                                                       sessions := Some []\<rparr>]))]\<rparr>
                        \<lparr>trace := trace \<lparr>world = Suc 0,
                       trace = trace example_sys @
                         [EvGetInvoices
                            \<lparr>startDateTime = None, endDateTime = None, filterInvoiceStatus = None,
                             filterLiveMode = Some False\<rparr> (DB_PARAMS_MAX_LIMIT example_utils)
                            (Inr ([] @ example_invoice\<lparr>liveMode := True\<rparr>
                                    # [example_invoice\<lparr>invoiceId := ''in_2'',
                                                       sessions := Some []\<rparr>]))]\<rparr> @
                           [EvLog LogError ''clearAllInvoiceTestData''
                              (''Failed to clear invoice test data - Invoice: ''
                                 @ invoiceId (example_invoice\<lparr>liveMode := True\<rparr>))]\<rparr>) of
                (Some t, s3) \<Rightarrow> (Inl t, s3)
              | (None, s3) \<Rightarrow> (Inr (), s3))"
    using t [THEN conjunct2, THEN conjunct2, rule_format,
        of "[]" "[example_invoice\<lparr>invoiceId := ''in_2'', sessions := Some []\<rparr>]" "Suc 0"] g
    by simp
  have res: "clearAllInvoiceTestData example_env_live_invoice example_utils example_sys
           = (Inr (),
              \<lparr>world = Suc 0,
               trace =
                 [EvGetInvoices
                    \<lparr>startDateTime = None, endDateTime = None, filterInvoiceStatus = None,
                     filterLiveMode = Some False\<rparr> (DB_PARAMS_MAX_LIMIT example_utils)
                    (Inr [example_invoice\<lparr>liveMode := True\<rparr>,
                          example_invoice\<lparr>invoiceId := ''in_2'', sessions := Some []\<rparr>]),
                  EvLog LogError ''clearAllInvoiceTestData''
                    ''Failed to clear invoice test data - Invoice: in_1'',
                  EvDeleteInvoice ''in_2'' (Inr ()),
                  EvLog LogInfo ''clearAllInvoiceTestData''
                    ''Successfully clear test data for invoice in_2'']\<rparr>)"
    unfolding sweep r by (simp add: example_sys_def example_invoice_def)
  show ?thesis
    using l t [THEN conjunct1] unfolding res
    by (simp add: newEvents_def example_sys_def)
qed

section \<open>Mirroring the invoice into its transactions: properties\<close>

text \<open>
  What the callback of \<open>updateTransactionsBillingData\<close> does once its transaction is read.
  A transaction that the store does not hold, or that has no billing data, or no \<open>stop\<close>
  in it, is left alone: no save and no log entry.  A transaction with a populated \<open>stop\<close>
  is saved once, under its own id, with the billing data that mirrors the invoice.  A
  read that failed with an error object is logged.  A read that the store rejected with
  \<open>null\<close> or \<open>undefined\<close> is not logged, and the callback is rejected.
\<close>

lemma updateTransactionsBillingData_afterRead_cases:
  "(\<not> populatedStop t \<longrightarrow>
      updateTransactionsBillingData_afterRead env billingInvoice (Inr t) s = (Settled, s))
 \<and> (\<forall>transaction bd st.
       t = Some transaction \<and> transactionBillingData transaction = Some bd
       \<and> billingStop bd = Some st \<longrightarrow>
      updateTransactionsBillingData_afterRead env billingInvoice (Inr t) s
        = (Saving (fst (saveTransactionBillingData env (transactionId transaction)
                          (mirrored env (world s) billingInvoice bd st) (world s))),
           \<lparr>world = snd (saveTransactionBillingData env (transactionId transaction)
                           (mirrored env (world s) billingInvoice bd st) (world s)),
            trace = trace s @
              [EvSaveTransactionBillingData (transactionId transaction)
                 (mirrored env (world s) billingInvoice bd st)
                 (fst (saveTransactionBillingData env (transactionId transaction)
                         (mirrored env (world s) billingInvoice bd st) (world s)))]\<rparr>))
 \<and> (e \<noteq> NullishRejection \<longrightarrow>
      updateTransactionsBillingData_afterRead env billingInvoice (Inl e) s
        = (Settled,
           s\<lparr>trace := trace s @
                [EvLog LogError ''updateTransactionsBillingData''
                   ''Failed to update Transaction Billing data of Transaction ID'']\<rparr>))
 \<and> updateTransactionsBillingData_afterRead env billingInvoice (Inl NullishRejection) s
      = (Rejected (TypeError ''Cannot read properties of undefined (reading stack)''), s)"
  by (auto simp: updateTransactionsBillingData_afterRead_def catchInCallback_def
                 logErrorWithStack_def populatedStop_def perform_eq log_defs
           split: option.splits)

text \<open>The mirrored billing data differs from the billing data read in three fields only.\<close>

lemma mirrored_frame:
  "withBillingActive (mirrored env w billingInvoice bd st) = withBillingActive bd
 \<and> lastUpdate (mirrored env w billingInvoice bd st) = newDate env w
 \<and> billingStop (mirrored env w billingInvoice bd st)
     = Some (st\<lparr>invoiceStatus := Some (status billingInvoice),
                 invoiceNumber := Some (number billingInvoice)\<rparr>)
 \<and> billingStatus (the (billingStop (mirrored env w billingInvoice bd st))) = billingStatus st
 \<and> invoiceID (the (billingStop (mirrored env w billingInvoice bd st))) = invoiceID st"
  by (simp add: mirrored_def)

text \<open>A callback that awaited its save: a failed save is logged, unless it was rejected with
  \<open>null\<close> or \<open>undefined\<close>.\<close>

lemma afterSave_cases:
  "afterSave method message Settled s = (Settled, s)
 \<and> afterSave method message (Rejected t) s = (Rejected t, s)
 \<and> afterSave method message (Saving (Inr ok)) s = (Settled, s)
 \<and> (e \<noteq> NullishRejection \<longrightarrow>
      afterSave method message (Saving (Inl e)) s
        = (Settled, s\<lparr>trace := trace s @ [EvLog LogError method message]\<rparr>))
 \<and> afterSave method message (Saving (Inl NullishRejection)) s
      = (Rejected (TypeError ''Cannot read properties of undefined (reading stack)''), s)"
  by (simp add: afterSave_def catchInCallback_def logErrorWithStack_def log_defs)

text \<open>
  With a store that rejects nothing with \<open>null\<close> or \<open>undefined\<close>, no callback is rejected,
  and \<open>updateTransactionsBillingData\<close> returns for every invoice that has its sessions.
\<close>

lemma firstRejection_None:
  "(\<And>t. Rejected t \<notin> set cs) \<Longrightarrow> firstRejection cs = None"
proof (induction cs)
  case Nil
  then show ?case by simp
next
  case (Cons c cs)
  then show ?case by (cases c) auto
qed

lemma reads_not_nullish:
  assumes "neverRejectsTransactionNullish env"
  shows "Inl NullishRejection \<notin> set (fst (traverse (readTransaction env) ss s))"
proof (induction ss arbitrary: s)
  case Nil
  then show ?case by simp
next
  case (Cons x xs)
  have "fst (getTransaction env (transactionID x) (world s)) \<noteq> Inl NullishRejection"
    using assms by (simp add: neverRejectsTransactionNullish_def)
  then show ?case
    using Cons.IH [of "snd (readTransaction env x s)"]
    by (auto simp: readTransaction_def perform_eq split: prod.splits)
qed

lemma afterReads_not_rejected:
  assumes "neverRejectsTransactionNullish env"
    and "Inl NullishRejection \<notin> set rs"
  shows "(\<forall>t. Rejected t \<notin> set (fst (traverse
              (updateTransactionsBillingData_afterRead env billingInvoice) rs s)))
       \<and> Saving (Inl NullishRejection) \<notin> set (fst (traverse
              (updateTransactionsBillingData_afterRead env billingInvoice) rs s))"
  using assms(2)
proof (induction rs arbitrary: s)
  case Nil
  then show ?case by simp
next
  case (Cons r rs)
  have save: "fst (saveTransactionBillingData env n d w) \<noteq> Inl NullishRejection" for n d w
    using assms(1) by (simp add: neverRejectsTransactionNullish_def)
  have r: "r \<noteq> Inl NullishRejection"
    using Cons.prems by auto
  have h: "(\<forall>t. fst (updateTransactionsBillingData_afterRead env billingInvoice r s) \<noteq> Rejected t)
        \<and> fst (updateTransactionsBillingData_afterRead env billingInvoice r s)
            \<noteq> Saving (Inl NullishRejection)"
    using r save
    by (auto simp: updateTransactionsBillingData_afterRead_def catchInCallback_def
                   logErrorWithStack_def perform_eq
             split: sum.splits option.splits)
  have t: "(\<forall>t. Rejected t \<notin> set (fst (traverse
              (updateTransactionsBillingData_afterRead env billingInvoice) rs
              (snd (updateTransactionsBillingData_afterRead env billingInvoice r s)))))
       \<and> Saving (Inl NullishRejection) \<notin> set (fst (traverse
              (updateTransactionsBillingData_afterRead env billingInvoice) rs
              (snd (updateTransactionsBillingData_afterRead env billingInvoice r s))))"
    using Cons.IH Cons.prems by simp
  show ?case
    using h t by (auto split: prod.splits)
qed

lemma afterSaves_not_rejected:
  assumes "\<And>t. Rejected t \<notin> set cs"
    and "Saving (Inl NullishRejection) \<notin> set cs"
  shows "Rejected t \<notin> set (fst (traverse (afterSave method message) cs s))"
  using assms
proof (induction cs arbitrary: s)
  case Nil
  then show ?case by simp
next
  case (Cons c cs)
  have h: "fst (afterSave method message c s) \<noteq> Rejected t"
    using Cons.prems
    by (cases c) (auto simp: afterSave_def catchInCallback_def logErrorWithStack_def
                       split: sum.splits)
  have "Rejected t \<notin> set (fst (traverse (afterSave method message) cs
                                 (snd (afterSave method message c s))))"
    using Cons.IH Cons.prems by simp
  then show ?case
    using h by (auto split: prod.splits)
qed

lemma updateTransactionsBillingData_returns:
  assumes "neverRejectsTransactionNullish env"
    and "sessions billingInvoice = Some ss"
  shows "fst (updateTransactionsBillingData env billingInvoice s) = Inr ()"
proof -
  let ?reads = "traverse (readTransaction env) ss s"
  let ?afterReads =
    "traverse (updateTransactionsBillingData_afterRead env billingInvoice) (fst ?reads) (snd ?reads)"
  let ?afterSaves =
    "traverse (afterSave ''updateTransactionsBillingData''
                 ''Failed to update Transaction Billing data of Transaction ID'')
       (fst ?afterReads) (snd ?afterReads)"
  have a: "(\<forall>t. Rejected t \<notin> set (fst ?afterReads))
         \<and> Saving (Inl NullishRejection) \<notin> set (fst ?afterReads)"
    using afterReads_not_rejected [OF assms(1) reads_not_nullish [OF assms(1)]] .
  have b: "Rejected t \<notin> set (fst ?afterSaves)" for t
    using afterSaves_not_rejected a by blast
  have "promiseAll (fst ?afterReads) (fst ?afterSaves) = Inr ()"
    using a b by (simp add: promiseAll_def firstRejection_None)
  then show ?thesis
    using assms(2) by (simp add: updateTransactionsBillingData_def split_beta)
qed

text \<open>
  An invoice of three sessions.  The store holds transaction 7 with a populated \<open>stop\<close>
  and transaction 8 without billing data, and fails on transaction 9 with an error
  object.  The three transactions are asked for, transaction 7 is saved with the status
  and the number of the invoice, transaction 8 is left alone, the failure on transaction
  9 is logged, and the call returns.
\<close>

lemma updateTransactionsBillingData_example:
  "fst (updateTransactionsBillingData example_env (example_invoice\<lparr>status := PAID\<rparr>) example_sys)
     = Inr ()
   \<and> newEvents example_sys
        (snd (updateTransactionsBillingData example_env (example_invoice\<lparr>status := PAID\<rparr>)
                example_sys))
       = [EvGetTransaction 7 (Inr (Some example_transaction)),
          EvGetTransaction 8
            (Inr (Some (example_transaction\<lparr>transactionId := 8,
                                               transactionBillingData := None\<rparr>))),
          EvGetTransaction 9 (Inl (ExternalError ''store unavailable'')),
          EvSaveTransactionBillingData 7
            \<lparr>withBillingActive = True, lastUpdate = 1000,
             billingStop = Some \<lparr>billingStatus = Some BILLED, invoiceID = Some ''in_1'',
                                 invoiceNumber = Some ''INV-1'', invoiceStatus = Some PAID\<rparr>\<rparr>
            (Inr ()),
          EvLog LogError ''updateTransactionsBillingData''
            ''Failed to update Transaction Billing data of Transaction ID'']"
  by (simp add: updateTransactionsBillingData_def updateTransactionsBillingData_afterRead_def
        readTransaction_def afterSave_def catchInCallback_def logErrorWithStack_def
        promiseAll_def mirrored_def perform_eq log_defs newEvents_def example_env_def
        example_sys_def example_invoice_def example_transaction_def)

text \<open>
  Claim C10 fails on a store that rejects a read with \<open>undefined\<close>.  The invoice has the
  sessions 7, 8 and 9; the store holds transaction 7 and rejects the read of the
  transactions 8 and 9 with \<open>undefined\<close>.  The handler of lines 301 to 310 reads
  \<open>error.stack\<close> to build its log entry, which throws: nothing is logged for the
  sessions 8 and 9, their callbacks are rejected, and \<open>updateTransactionsBillingData\<close>
  throws the \<open>TypeError\<close> to its caller.  Transaction 7 is saved all the same.
\<close>

theorem updateTransactionsBillingData_nullish_rejection:
  "fst (updateTransactionsBillingData example_env_nullish_store example_invoice example_sys)
     = Inl (TypeError ''Cannot read properties of undefined (reading stack)'')
   \<and> newEvents example_sys
        (snd (updateTransactionsBillingData example_env_nullish_store example_invoice example_sys))
       = [EvGetTransaction 7 (Inr (Some example_transaction)),
          EvGetTransaction 8 (Inl NullishRejection),
          EvGetTransaction 9 (Inl NullishRejection),
          EvSaveTransactionBillingData 7
            \<lparr>withBillingActive = True, lastUpdate = 1000,
             billingStop = Some \<lparr>billingStatus = Some BILLED, invoiceID = Some ''in_1'',
                                 invoiceNumber = Some ''INV-1'', invoiceStatus = Some OPEN\<rparr>\<rparr>
            (Inr ())]
   \<and> filter isErrorLog
        (newEvents example_sys
           (snd (updateTransactionsBillingData example_env_nullish_store example_invoice
                   example_sys))) = []"
  by (simp add: updateTransactionsBillingData_def updateTransactionsBillingData_afterRead_def
        readTransaction_def afterSave_def catchInCallback_def logErrorWithStack_def
        promiseAll_def mirrored_def perform_eq log_defs newEvents_def
        example_env_nullish_store_def example_env_def example_sys_def example_invoice_def
        example_transaction_def)

section \<open>The notification bridge: properties\<close>

text \<open>
  What \<open>sendInvoiceNotification\<close> does by the status of the invoice.  For an invoice
  that is neither open nor paid it sends nothing, touches nothing, and reaches the end of
  the function without a \<open>return\<close>.  For an open or paid invoice whose tenant is found
  and whose amount can be formatted it returns \<open>true\<close> and hands one notification over,
  whose amount is the formatted hundredth of the invoice amount.  When the tenant
  lookup or the formatting fails with an error object it returns \<open>false\<close>, logs the
  failure and sends nothing.
\<close>

lemma sendInvoiceNotification_cases:
  "(status billingInvoice \<noteq> OPEN \<and> status billingInvoice \<noteq> PAID \<longrightarrow>
      sendInvoiceNotification env this utils billingInvoice s = (Inr None, s))
 \<and> (\<forall>t w1 formatted.
       (status billingInvoice = OPEN \<or> status billingInvoice = PAID)
       \<and> getTenant env (tenantId (tenant this)) (world s) = (Inr (Some t), w1)
       \<and> formatCurrency utils
            (convertLocaleForCurrency utils (userLocale (invoiceUser billingInvoice)))
            (toUpperCase utils (currency billingInvoice))
            (of_int (amount billingInvoice) / 100) = Inr formatted \<longrightarrow>
      fst (sendInvoiceNotification env this utils billingInvoice s) = Inr (Some True)
    \<and> (\<exists>d. newEvents s (snd (sendInvoiceNotification env this utils billingInvoice s))
               = [EvGetTenant (tenantId (tenant this)) (Inr (Some t)),
                  EvSendBillingNewInvoiceNotification (invoiceId billingInvoice) d]
           \<and> invoiceAmount d = formatted
           \<and> payInvoiceUrlSent d
               = (if status billingInvoice = OPEN then payInvoiceUrl billingInvoice else [])))
 \<and> (\<forall>e w1.
       (status billingInvoice = OPEN \<or> status billingInvoice = PAID)
       \<and> getTenant env (tenantId (tenant this)) (world s) = (Inl e, w1)
       \<and> e \<noteq> NullishRejection \<longrightarrow>
      fst (sendInvoiceNotification env this utils billingInvoice s) = Inr (Some False)
    \<and> newEvents s (snd (sendInvoiceNotification env this utils billingInvoice s))
        = [EvGetTenant (tenantId (tenant this)) (Inl e),
           EvLog LogError ''sendInvoiceNotification''
             (''Failed to send notification for invoice '' @ invoiceId billingInvoice)])
 \<and> (\<forall>e t w1.
       (status billingInvoice = OPEN \<or> status billingInvoice = PAID)
       \<and> getTenant env (tenantId (tenant this)) (world s) = (Inr t, w1)
       \<and> formatCurrency utils
            (convertLocaleForCurrency utils (userLocale (invoiceUser billingInvoice)))
            (toUpperCase utils (currency billingInvoice))
            (of_int (amount billingInvoice) / 100) = Inl e
       \<and> e \<noteq> NullishRejection \<longrightarrow>
      fst (sendInvoiceNotification env this utils billingInvoice s) = Inr (Some False)
    \<and> newEvents s (snd (sendInvoiceNotification env this utils billingInvoice s))
        = [EvGetTenant (tenantId (tenant this)) (Inr t),
           EvLog LogError ''sendInvoiceNotification''
             (''Failed to send notification for invoice '' @ invoiceId billingInvoice)])"
  by (auto simp: sendInvoiceNotification_def sendInvoiceNotification_catch_def
                 logErrorWithStack_def perform_eq log_defs newEvents_def)

text \<open>An open invoice of 1050 minor units in euros: the amount sent is that of 10.50 EUR.\<close>

lemma sendInvoiceNotification_open_example:
  "of_int (amount example_invoice) / 100 = (21 / 2 :: rat)
   \<and> fst (sendInvoiceNotification example_env example_this example_utils example_invoice example_sys)
       = Inr (Some True)
   \<and> newEvents example_sys
        (snd (sendInvoiceNotification example_env example_this example_utils example_invoice
                example_sys))
       = [EvGetTenant ''tenant-1'' (Inr (Some example_tenant)),
          EvSendBillingNewInvoiceNotification ''in_1''
            \<lparr>notifyUser = example_user,
             evseDashboardInvoiceURL = ''acme/invoices'',
             evseDashboardURL = ''acme'',
             invoiceDownloadUrl = ''acme/invoices/in_1'',
             payInvoiceUrlSent = ''https://pay/in_1'',
             invoiceAmount = ''10,50 EUR'',
             invoiceNumberSent = ''INV-1'',
             invoiceStatusSent = OPEN\<rparr>]"
  by (simp add: sendInvoiceNotification_def perform_eq log_defs newEvents_def example_defs)

text \<open>
  Claim C3 fails on a draft invoice: the call sends nothing, as the claim says, but it
  does not return \<open>true\<close>; it returns no value at all.
\<close>

theorem sendInvoiceNotification_draft_undefined:
  "status (example_invoice\<lparr>status := DRAFT\<rparr>) = DRAFT
   \<and> sendInvoiceNotification example_env example_this example_utils
         (example_invoice\<lparr>status := DRAFT\<rparr>) example_sys
       = (Inr None, example_sys)"
  by (simp add: sendInvoiceNotification_def)

end
